theory Spec2Isabelle
  imports Complex_Main "HOL-Library.AList"
begin

section \<open>LuckyOnes: a shallow embedding of the chat core\<close>

text \<open>
  The development follows three source files: \<^verbatim>\<open>chat_manager.py\<close> (threads, images and
  their expiry), \<^verbatim>\<open>network_utils.py\<close> (the envelope codec and the relay server) and
  \<^verbatim>\<open>crypto_utils.py\<close> (the ratchet engine). Python objects are records, dictionaries
  are association lists in insertion order (\<open>AList.update\<close> overwrites in place or
  appends, as a Python \<open>dict\<close> does), exceptions are values of type \<open>error\<close>, and every
  clock reading or random draw of the source is an argument of the function that makes it.
  A \<open>string\<close> stands for a Python \<open>str\<close>; whether its UTF-8 encoding raises is part of the
  hash functions, which are arguments too. Console output is not modelled.
\<close>

subsection \<open>Common types\<close>

datatype error =
    OverflowError | TypeError | ValueError | KeyError | AttributeError
  | JSONDecodeError | UnicodeEncodeError | InvalidTag | SendError

type_synonym bytes = "nat list"

text \<open>
  A \<open>datetime\<close> is the number of microseconds since 0001-01-01T00:00:00, a \<open>timedelta\<close> a
  number of microseconds: both are exact integers in Python. \<open>time.time()\<close> is a float,
  read here as a real number.
\<close>

type_synonym datetime = int
type_synonym timedelta = int

definition timedelta_of :: "int \<Rightarrow> error + timedelta" where
  \<comment> \<open>a \<open>timedelta\<close> holds between -999999999 and 999999999 whole days\<close>
  "timedelta_of us =
     (if - 999999999 \<le> us div 86400000000 \<and> us div 86400000000 \<le> 999999999
      then Inr us else Inl OverflowError)"

definition timedelta_hours :: "int \<Rightarrow> error + timedelta" where
  "timedelta_hours h = timedelta_of (h * 3600000000)"

definition timedelta_minutes :: "int \<Rightarrow> error + timedelta" where
  "timedelta_minutes m = timedelta_of (m * 60000000)"

definition datetime_add :: "datetime \<Rightarrow> timedelta \<Rightarrow> error + datetime" where
  \<comment> \<open>the sum must be a date of the years 1 to 9999 (ordinals 1 to 3652059)\<close>
  "datetime_add d td =
     (if 0 \<le> d + td \<and> d + td < 3652059 * 86400000000
      then Inr (d + td) else Inl OverflowError)"

subsection \<open>chat\_manager.py: ChatMessage and ChatThread\<close>

record ChatMessage =
  m_content :: string
  m_sender_id :: string
  m_sender_username :: string
  m_thread_id :: string
  m_timestamp :: real
  m_message_type :: string
  m_created_at :: datetime

record ChatThread =
  t_thread_id :: string
  t_name :: string
  t_is_private :: bool
  t_creator_id :: "string option"
  t_created_at :: datetime
  t_expires_at :: "datetime option"
  t_messages :: "ChatMessage list"
  t_participants :: "string set"

definition ChatMessage_init ::
  "string \<Rightarrow> string \<Rightarrow> string \<Rightarrow> string \<Rightarrow> real \<Rightarrow> string \<Rightarrow> datetime \<Rightarrow> ChatMessage" where
  "ChatMessage_init content sender_id sender_username thread_id timestamp message_type now =
     \<lparr> m_content = content, m_sender_id = sender_id, m_sender_username = sender_username,
       m_thread_id = thread_id, m_timestamp = timestamp, m_message_type = message_type,
       m_created_at = now \<rparr>"

definition ChatThread_init ::
  "string \<Rightarrow> string \<Rightarrow> bool \<Rightarrow> string option \<Rightarrow> int \<Rightarrow> datetime \<Rightarrow> error + ChatThread" where
  \<comment> \<open>\<open>now\<close> is the one \<open>datetime.now()\<close> of the constructor\<close>
  "ChatThread_init thread_id name is_private creator_id expires_hours now =
     (let t = \<lparr> t_thread_id = thread_id, t_name = name, t_is_private = is_private,
                t_creator_id = creator_id, t_created_at = now, t_expires_at = None,
                t_messages = [], t_participants = {} \<rparr>
      in if thread_id \<noteq> ''main'' \<and> expires_hours > 0 then
           (case timedelta_hours expires_hours of
              Inl e \<Rightarrow> Inl e
            | Inr td \<Rightarrow>
                (case datetime_add now td of
                   Inl e \<Rightarrow> Inl e
                 | Inr ex \<Rightarrow> Inr (t\<lparr> t_expires_at := Some ex \<rparr>)))
         else Inr t)"

definition thread_add_message :: "ChatThread \<Rightarrow> ChatMessage \<Rightarrow> ChatThread" where
  "thread_add_message t m =
     t\<lparr> t_messages := t_messages t @ [m],
        t_participants := insert (m_sender_id m) (t_participants t) \<rparr>"

definition is_expired :: "ChatThread \<Rightarrow> datetime \<Rightarrow> bool" where
  \<comment> \<open>the second argument is the \<open>datetime.now()\<close> of the call\<close>
  "is_expired t now = (case t_expires_at t of None \<Rightarrow> False | Some ex \<Rightarrow> now > ex)"

subsection \<open>chat\_manager.py: ImageManager\<close>

record image_info =
  i_path :: string
  i_sender_id :: string
  i_thread_id :: string
  i_created_at :: datetime
  i_expires_at :: datetime

text \<open>
  The files of the temporary directory are part of the state: \<open>im_files\<close> maps a path to
  the bytes written there. Writing is taken to succeed; a read of a missing path is the
  \<open>except\<close> branch of \<open>get_image\<close>.
\<close>

record ImageManager =
  im_temp_dir :: string
  im_images :: "(string \<times> image_info) list"
  im_files :: "string \<rightharpoonup> bytes"
  im_running :: bool

definition ImageManager_init :: "string \<Rightarrow> (string \<rightharpoonup> bytes) \<Rightarrow> ImageManager" where
  "ImageManager_init temp_dir files =
     \<lparr> im_temp_dir = temp_dir, im_images = [], im_files = files, im_running = False \<rparr>"

definition path_join :: "string \<Rightarrow> string \<Rightarrow> string" where
  \<comment> \<open>\<open>os.path.join\<close> of two components (POSIX)\<close>
  "path_join a b =
     (if b \<noteq> [] \<and> hd b = CHR ''/'' then b
      else if a = [] \<or> last a = CHR ''/'' then a @ b
      else a @ ''/'' @ b)"

definition store_image ::
  "(bytes \<Rightarrow> string \<Rightarrow> real \<Rightarrow> error + string) \<Rightarrow> ImageManager \<Rightarrow> bytes \<Rightarrow> string \<Rightarrow>
   string \<Rightarrow> real \<Rightarrow> datetime \<Rightarrow> datetime \<Rightarrow> (error + string) \<times> ImageManager" where
  \<comment> \<open>\<open>image_hash d s t\<close> stands for \<open>sha256(f"{d}{s}{t}".encode()).hexdigest()[:16]\<close>, where
      \<open>encode\<close> raises on a string with a lone surrogate; \<open>t\<close> is the \<open>time.time()\<close> of the
      call, \<open>now1\<close> and \<open>now2\<close> its two \<open>datetime.now()\<close>. The file is written before the
      entry is built, so it stays when the date overflows.\<close>
  "store_image image_hash im image_data sender_id thread_id t now1 now2 =
     (case image_hash image_data sender_id t of
        Inl e \<Rightarrow> (Inl e, im)
      | Inr image_id \<Rightarrow>
          (let image_path = path_join (im_temp_dir im) (image_id @ ''.jpg'');
               im1 = im\<lparr> im_files := (im_files im)(image_path \<mapsto> image_data) \<rparr>
           in case timedelta_minutes 30 of
                Inl e \<Rightarrow> (Inl e, im1)
              | Inr td \<Rightarrow>
                  (case datetime_add now2 td of
                     Inl e \<Rightarrow> (Inl e, im1)
                   | Inr ex \<Rightarrow>
                       (Inr image_id,
                        im1\<lparr> im_images := AList.update image_id
                               \<lparr> i_path = image_path, i_sender_id = sender_id,
                                 i_thread_id = thread_id, i_created_at = now1,
                                 i_expires_at = ex \<rparr> (im_images im) \<rparr>))))"

definition delete_image :: "string \<Rightarrow> ImageManager \<Rightarrow> ImageManager" where
  "delete_image image_id im =
     (case map_of (im_images im) image_id of
        None \<Rightarrow> im
      | Some info \<Rightarrow>
          im\<lparr> im_files := (im_files im)(i_path info := None),
              im_images := AList.delete image_id (im_images im) \<rparr>)"

definition get_image :: "ImageManager \<Rightarrow> string \<Rightarrow> datetime \<Rightarrow> bytes option \<times> ImageManager" where
  "get_image im image_id now =
     (case map_of (im_images im) image_id of
        None \<Rightarrow> (None, im)
      | Some info \<Rightarrow>
          if now > i_expires_at info then (None, delete_image image_id im)
          else (im_files im (i_path info), im))"

definition expired_images :: "ImageManager \<Rightarrow> datetime \<Rightarrow> string list" where
  "expired_images im current_time =
     map fst (filter (\<lambda>(image_id, info). current_time > i_expires_at info) (im_images im))"

definition image_cleanup_pass :: "datetime \<Rightarrow> ImageManager \<Rightarrow> ImageManager" where
  \<comment> \<open>one round of \<open>ImageManager._cleanup_loop\<close>\<close>
  "image_cleanup_pass current_time im = fold delete_image (expired_images im current_time) im"

definition cleanup_all_images :: "ImageManager \<Rightarrow> ImageManager" where
  "cleanup_all_images im = fold delete_image (map fst (im_images im)) im"

definition ImageManager_stop :: "ImageManager \<Rightarrow> ImageManager" where
  "ImageManager_stop im = cleanup_all_images (im\<lparr> im_running := False \<rparr>)"

subsection \<open>chat\_manager.py: ChatManager\<close>

datatype event =
    message_added ChatMessage
  | thread_created ChatThread
  | thread_deleted ChatThread

text \<open>
  A registered handler is a name; \<open>cm_calls\<close> records which handler was called with which
  event, in order. A handler's exception is swallowed by the source, and a handler is
  taken not to call back into the manager.
\<close>

record ChatManager =
  cm_threads :: "(string \<times> ChatThread) list"
  cm_current_thread_id :: string
  cm_message_handlers :: "nat list"
  cm_thread_handlers :: "nat list"
  cm_calls :: "(nat \<times> event) list"
  cm_image_manager :: ImageManager
  cm_running :: bool

definition notify :: "nat list \<Rightarrow> event \<Rightarrow> ChatManager \<Rightarrow> ChatManager" where
  "notify handlers ev cm = cm\<lparr> cm_calls := cm_calls cm @ map (\<lambda>h. (h, ev)) handlers \<rparr>"

definition create_main_thread :: "datetime \<Rightarrow> ChatManager \<Rightarrow> error + ChatManager" where
  "create_main_thread now cm =
     (case ChatThread_init ''main'' ''Main Chat'' False (Some ''system'') 12 now of
        Inl e \<Rightarrow> Inl e
      | Inr main_thread \<Rightarrow>
          Inr (cm\<lparr> cm_threads := AList.update ''main'' main_thread (cm_threads cm),
                  cm_current_thread_id := ''main'' \<rparr>))"

definition ChatManager_init :: "(string \<rightharpoonup> bytes) \<Rightarrow> datetime \<Rightarrow> error + ChatManager" where
  "ChatManager_init files now =
     create_main_thread now
       \<lparr> cm_threads = [], cm_current_thread_id = ''main'', cm_message_handlers = [],
         cm_thread_handlers = [], cm_calls = [],
         cm_image_manager = ImageManager_init ''temp_images'' files, cm_running = False \<rparr>"

definition ChatManager_start :: "ChatManager \<Rightarrow> ChatManager" where
  "ChatManager_start cm =
     cm\<lparr> cm_running := True,
         cm_image_manager := (cm_image_manager cm)\<lparr> im_running := True \<rparr> \<rparr>"

definition ChatManager_stop :: "ChatManager \<Rightarrow> ChatManager" where
  "ChatManager_stop cm =
     cm\<lparr> cm_running := False,
         cm_image_manager := ImageManager_stop (cm_image_manager cm) \<rparr>"

definition create_thread ::
  "(string \<Rightarrow> string option \<Rightarrow> real \<Rightarrow> error + string) \<Rightarrow> ChatManager \<Rightarrow> string \<Rightarrow> bool \<Rightarrow>
   string option \<Rightarrow> real \<Rightarrow> datetime \<Rightarrow> error + (string \<times> ChatManager)" where
  \<comment> \<open>\<open>thread_hash n c t\<close> stands for \<open>sha256(f"{n}{c}{t}".encode()).hexdigest()[:16]\<close>, where
      \<open>encode\<close> raises on a string with a lone surrogate\<close>
  "create_thread thread_hash cm name is_private creator_id t now =
     (case thread_hash name creator_id t of
        Inl e \<Rightarrow> Inl e
      | Inr thread_id \<Rightarrow>
          (case ChatThread_init thread_id name is_private creator_id 12 now of
             Inl e \<Rightarrow> Inl e
           | Inr thread \<Rightarrow>
               Inr (thread_id,
                    notify (cm_thread_handlers cm) (thread_created thread)
                      (cm\<lparr> cm_threads := AList.update thread_id thread (cm_threads cm) \<rparr>))))"

definition add_message ::
  "ChatManager \<Rightarrow> string \<Rightarrow> string \<Rightarrow> string \<Rightarrow> string option \<Rightarrow> string \<Rightarrow> real \<Rightarrow> datetime \<Rightarrow>
   ChatMessage option \<times> ChatManager" where
  "add_message cm content sender_id sender_username thread_id message_type t now =
     (let tid = (case thread_id of None \<Rightarrow> cm_current_thread_id cm | Some i \<Rightarrow> i)
      in case map_of (cm_threads cm) tid of
           None \<Rightarrow> (None, cm)
         | Some thread \<Rightarrow>
             (let message = ChatMessage_init content sender_id sender_username tid t
                              message_type now
              in (Some message,
                  notify (cm_message_handlers cm) (message_added message)
                    (cm\<lparr> cm_threads :=
                           AList.update tid (thread_add_message thread message)
                             (cm_threads cm) \<rparr>))))"

definition add_image_message ::
  "(bytes \<Rightarrow> string \<Rightarrow> real \<Rightarrow> error + string) \<Rightarrow> ChatManager \<Rightarrow> bytes \<Rightarrow> string \<Rightarrow> string \<Rightarrow>
   string option \<Rightarrow> real \<Rightarrow> datetime \<Rightarrow> datetime \<Rightarrow> real \<Rightarrow> datetime \<Rightarrow>
   (error + ChatMessage option) \<times> ChatManager" where
  "add_image_message image_hash cm image_data sender_id sender_username thread_id
       t1 now1 now2 t2 now3 =
     (let tid = (case thread_id of None \<Rightarrow> cm_current_thread_id cm | Some i \<Rightarrow> i)
      in case map_of (cm_threads cm) tid of
           None \<Rightarrow> (Inr None, cm)
         | Some thread \<Rightarrow>
             (case store_image image_hash (cm_image_manager cm) image_data sender_id tid
                     t1 now1 now2 of
                (Inl e, im') \<Rightarrow> (Inl e, cm\<lparr> cm_image_manager := im' \<rparr>)
              | (Inr image_id, im') \<Rightarrow>
                  (let message = ChatMessage_init (''[IMAGE:'' @ image_id @ '']'') sender_id
                                   sender_username tid t2 ''image'' now3
                   in (Inr (Some message),
                       notify (cm_message_handlers cm) (message_added message)
                         (cm\<lparr> cm_image_manager := im',
                             cm_threads :=
                               AList.update tid (thread_add_message thread message)
                                 (cm_threads cm) \<rparr>)))))"

definition get_thread_messages :: "ChatManager \<Rightarrow> string option \<Rightarrow> ChatMessage list" where
  "get_thread_messages cm thread_id =
     (let tid = (case thread_id of None \<Rightarrow> cm_current_thread_id cm | Some i \<Rightarrow> i)
      in case map_of (cm_threads cm) tid of None \<Rightarrow> [] | Some thread \<Rightarrow> t_messages thread)"

definition get_threads :: "ChatManager \<Rightarrow> ChatThread list" where
  "get_threads cm = map snd (cm_threads cm)"

definition get_thread :: "ChatManager \<Rightarrow> string \<Rightarrow> ChatThread option" where
  "get_thread cm thread_id = map_of (cm_threads cm) thread_id"

definition set_current_thread :: "string \<Rightarrow> ChatManager \<Rightarrow> ChatManager" where
  "set_current_thread thread_id cm =
     (if map_of (cm_threads cm) thread_id \<noteq> None
      then cm\<lparr> cm_current_thread_id := thread_id \<rparr> else cm)"

definition get_current_thread :: "ChatManager \<Rightarrow> ChatThread option" where
  "get_current_thread cm = map_of (cm_threads cm) (cm_current_thread_id cm)"

definition register_message_handler :: "nat \<Rightarrow> ChatManager \<Rightarrow> ChatManager" where
  "register_message_handler h cm = cm\<lparr> cm_message_handlers := cm_message_handlers cm @ [h] \<rparr>"

definition register_thread_handler :: "nat \<Rightarrow> ChatManager \<Rightarrow> ChatManager" where
  "register_thread_handler h cm = cm\<lparr> cm_thread_handlers := cm_thread_handlers cm @ [h] \<rparr>"

definition delete_thread :: "string \<Rightarrow> ChatManager \<Rightarrow> ChatManager" where
  "delete_thread thread_id cm =
     (case map_of (cm_threads cm) thread_id of
        None \<Rightarrow> cm
      | Some thread \<Rightarrow>
          if thread_id \<noteq> ''main'' then
            notify (cm_thread_handlers cm) (thread_deleted thread)
              (cm\<lparr> cm_threads := AList.delete thread_id (cm_threads cm),
                  cm_current_thread_id :=
                    (if cm_current_thread_id cm = thread_id then ''main''
                     else cm_current_thread_id cm) \<rparr>)
          else cm)"

definition expired_threads :: "(string \<Rightarrow> datetime) \<Rightarrow> ChatManager \<Rightarrow> string list" where
  \<comment> \<open>\<open>clock i\<close> is the \<open>datetime.now()\<close> read by \<open>is_expired\<close> for the thread of id \<open>i\<close>\<close>
  "expired_threads clock cm =
     map fst (filter (\<lambda>(thread_id, thread). is_expired thread (clock thread_id)) (cm_threads cm))"

definition cleanup_pass :: "(string \<Rightarrow> datetime) \<Rightarrow> ChatManager \<Rightarrow> ChatManager" where
  \<comment> \<open>one round of \<open>ChatManager._cleanup_loop\<close>\<close>
  "cleanup_pass clock cm =
     fold (\<lambda>thread_id s. if thread_id \<noteq> ''main'' then delete_thread thread_id s else s)
       (expired_threads clock cm) cm"

text \<open>
  The operations that change a \<open>ChatManager\<close>, as one datatype; \<open>apply_op\<close> gives the
  state an operation leaves, also when it raises. The getters change nothing.
\<close>

datatype cm_op =
    Start
  | Stop
  | CreateThread string bool "string option" real datetime
  | AddMessage string string string "string option" string real datetime
  | AddImageMessage bytes string string "string option" real datetime datetime real datetime
  | SetCurrentThread string
  | RegisterMessageHandler nat
  | RegisterThreadHandler nat
  | DeleteThread string
  | CleanupPass "string \<Rightarrow> datetime"

fun apply_op ::
  "(bytes \<Rightarrow> string \<Rightarrow> real \<Rightarrow> error + string) \<Rightarrow>
   (string \<Rightarrow> string option \<Rightarrow> real \<Rightarrow> error + string) \<Rightarrow>
   cm_op \<Rightarrow> ChatManager \<Rightarrow> ChatManager" where
  "apply_op ih th Start cm = ChatManager_start cm"
| "apply_op ih th Stop cm = ChatManager_stop cm"
| "apply_op ih th (CreateThread name is_private creator_id t now) cm =
     (case create_thread th cm name is_private creator_id t now of
        Inl e \<Rightarrow> cm | Inr (thread_id, cm') \<Rightarrow> cm')"
| "apply_op ih th (AddMessage content sender_id sender_username thread_id message_type t now) cm =
     snd (add_message cm content sender_id sender_username thread_id message_type t now)"
| "apply_op ih th (AddImageMessage image_data sender_id sender_username thread_id
                     t1 now1 now2 t2 now3) cm =
     snd (add_image_message ih cm image_data sender_id sender_username thread_id
            t1 now1 now2 t2 now3)"
| "apply_op ih th (SetCurrentThread thread_id) cm = set_current_thread thread_id cm"
| "apply_op ih th (RegisterMessageHandler h) cm = register_message_handler h cm"
| "apply_op ih th (RegisterThreadHandler h) cm = register_thread_handler h cm"
| "apply_op ih th (DeleteThread thread_id) cm = delete_thread thread_id cm"
| "apply_op ih th (CleanupPass clock) cm = cleanup_pass clock cm"

definition registry_ok :: "ChatManager \<Rightarrow> bool" where
  "registry_ok cm \<longleftrightarrow>
     map_of (cm_threads cm) ''main'' \<noteq> None \<and>
     map_of (cm_threads cm) (cm_current_thread_id cm) \<noteq> None"

subsection \<open>network\_utils.py: JSON values and the wire\<close>

text \<open>
  The values \<open>json.loads\<close> returns and \<open>json.dumps\<close> accepts. An object keeps its members in
  order, as a Python \<open>dict\<close> does.
\<close>

datatype jval =
    JNull
  | JBool bool
  | JInt int
  | JFloat real
  | JStr string
  | JArr "jval list"
  | JObj "(string \<times> jval) list"

text \<open>
  A byte string on the wire is represented by what \<open>json.loads(data.decode('utf-8'))\<close> makes
  of it: \<open>Undecodable b\<close> are bytes on which the decoding or the parsing raises, and
  \<open>JsonText v\<close> are the bytes of a JSON text of the value \<open>v\<close>, which is also what
  \<open>json.dumps(v).encode('utf-8')\<close> produces.
\<close>

datatype wire = Undecodable bytes | JsonText jval

definition json_loads :: "wire \<Rightarrow> error + jval" where
  "json_loads w = (case w of Undecodable b \<Rightarrow> Inl JSONDecodeError | JsonText v \<Rightarrow> Inr v)"

definition json_dumps :: "jval \<Rightarrow> wire" where
  "json_dumps v = JsonText v"

fun truthy :: "jval \<Rightarrow> bool" where
  \<comment> \<open>the truth value Python gives a value in \<open>if v\<close> and \<open>not v\<close>\<close>
  "truthy JNull = False"
| "truthy (JBool b) = b"
| "truthy (JInt i) = (i \<noteq> 0)"
| "truthy (JFloat r) = (r \<noteq> 0)"
| "truthy (JStr s) = (s \<noteq> [])"
| "truthy (JArr xs) = (xs \<noteq> [])"
| "truthy (JObj kvs) = (kvs \<noteq> [])"

fun py_get :: "jval \<Rightarrow> string \<Rightarrow> jval \<Rightarrow> error + jval" where
  \<comment> \<open>\<open>v.get(key, default)\<close>: only a \<open>dict\<close> has the method\<close>
  "py_get (JObj kvs) key dflt = Inr (case map_of kvs key of None \<Rightarrow> dflt | Some v \<Rightarrow> v)"
| "py_get v key dflt = Inl AttributeError"

subsection \<open>network\_utils.py: MessageProtocol\<close>

definition create_message :: "string \<Rightarrow> jval \<Rightarrow> jval \<Rightarrow> real \<Rightarrow> wire" where
  \<comment> \<open>the last argument is the \<open>time.time()\<close> of the call\<close>
  "create_message msg_type data user_id now =
     json_dumps (JObj ([(''type'', JStr msg_type), (''timestamp'', JFloat now), (''data'', data)]
                       @ (if truthy user_id then [(''user_id'', user_id)] else [])))"

definition error_envelope :: jval where
  "error_envelope =
     JObj [(''type'', JStr ''ERROR''),
           (''data'', JObj [(''error'', JStr ''Invalid message format'')])]"

definition parse_message :: "wire \<Rightarrow> jval" where
  \<comment> \<open>the bare \<open>except\<close> catches whatever the decoding raises\<close>
  "parse_message data = (case json_loads data of Inl e \<Rightarrow> error_envelope | Inr v \<Rightarrow> v)"

definition message_type_of :: "jval \<Rightarrow> error + jval" where
  \<comment> \<open>\<open>message.get('type')\<close>, as the receive loops read an envelope's type\<close>
  "message_type_of message = py_get message ''type'' JNull"

subsection \<open>network\_utils.py: NetworkServer\<close>

text \<open>
  A socket is a number. \<open>ns_sent\<close> lists every call of \<open>send\<close> on a client socket, in
  order; \<open>broken s\<close> says that \<open>send\<close> on socket \<open>s\<close> raises. \<open>ns_closed\<close> lists the sockets
  closed.
\<close>

record client_info =
  ci_socket :: nat
  ci_address :: string
  ci_user_id :: jval
  ci_username :: jval
  ci_public_key :: jval
  ci_connected_at :: real

record thread_info =
  ti_name :: jval
  ti_is_private :: jval
  ti_created_at :: real
  ti_expires_at :: jval
  ti_creator_id :: jval

record NetworkServer =
  ns_port :: int
  ns_clients :: "(nat \<times> client_info) list"
  ns_threads :: "(string \<times> thread_info) list"
  ns_running :: bool
  ns_sent :: "(nat \<times> wire) list"
  ns_closed :: "nat list"

definition NetworkServer_init :: "int \<Rightarrow> NetworkServer" where
  "NetworkServer_init port =
     \<lparr> ns_port = port, ns_clients = [], ns_threads = [], ns_running = False,
       ns_sent = [], ns_closed = [] \<rparr>"

definition register_client :: "nat \<Rightarrow> string \<Rightarrow> real \<Rightarrow> NetworkServer \<Rightarrow> NetworkServer" where
  \<comment> \<open>the first lines of \<open>_handle_client\<close>: the entry of a new connection\<close>
  "register_client client_socket address now ns =
     ns\<lparr> ns_clients := AList.update client_socket
            \<lparr> ci_socket = client_socket, ci_address = address, ci_user_id = JNull,
              ci_username = JNull, ci_public_key = JNull, ci_connected_at = now \<rparr>
            (ns_clients ns) \<rparr>"

definition send :: "(nat \<Rightarrow> bool) \<Rightarrow> nat \<Rightarrow> wire \<Rightarrow> NetworkServer \<Rightarrow> (error + unit) \<times> NetworkServer" where
  "send broken s data ns =
     (if broken s then Inl SendError else Inr (), ns\<lparr> ns_sent := ns_sent ns @ [(s, data)] \<rparr>)"

definition send_to_each :: "(nat \<Rightarrow> bool) \<Rightarrow> nat list \<Rightarrow> wire \<Rightarrow> NetworkServer \<Rightarrow> NetworkServer" where
  \<comment> \<open>a loop of \<open>try: other_socket.send(response) except: pass\<close>\<close>
  "send_to_each broken sockets response ns =
     fold (\<lambda>other_socket s. snd (send broken other_socket response s)) sockets ns"

definition disconnect_client :: "nat \<Rightarrow> NetworkServer \<Rightarrow> NetworkServer" where
  "disconnect_client client_socket ns =
     ns\<lparr> ns_clients := AList.delete client_socket (ns_clients ns),
         ns_closed := ns_closed ns @ [client_socket] \<rparr>"

definition handle_join ::
  "(jval \<Rightarrow> string) \<Rightarrow> (nat \<Rightarrow> bool) \<Rightarrow> NetworkServer \<Rightarrow> nat \<Rightarrow> jval \<Rightarrow> real \<Rightarrow>
   (error + unit) \<times> NetworkServer" where
  \<comment> \<open>\<open>fmt v\<close> stands for the text an f-string gives the value \<open>v\<close>. The entry is updated
      before the welcome is sent, so it stays updated when \<open>send\<close> raises.\<close>
  "handle_join fmt broken ns client_socket message now =
     (case py_get message ''data'' (JObj []) of
        Inl e \<Rightarrow> (Inl e, ns)
      | Inr data \<Rightarrow>
          (case map_of (ns_clients ns) client_socket of
             None \<Rightarrow> (Inl KeyError, ns)
           | Some client_info \<Rightarrow>
               (case data of
                  JObj d \<Rightarrow>
                    (let user_id = (case map_of d ''user_id'' of None \<Rightarrow> JNull | Some v \<Rightarrow> v);
                         username = (case map_of d ''username'' of None \<Rightarrow> JNull | Some v \<Rightarrow> v);
                         public_key = (case map_of d ''public_key'' of None \<Rightarrow> JNull | Some v \<Rightarrow> v);
                         ns1 = ns\<lparr> ns_clients := AList.update client_socket
                                 (client_info\<lparr> ci_user_id := user_id, ci_username := username,
                                                ci_public_key := public_key \<rparr>)
                                 (ns_clients ns) \<rparr>;
                         welcome_data = JObj [(''message'', JStr (''Welcome '' @ fmt username @ ''!'')),
                                              (''thread_id'', JStr ''main'')];
                         response = create_message ''MESSAGE'' welcome_data (JStr ''system'') now
                     in send broken client_socket response ns1)
                | _ \<Rightarrow> (Inl AttributeError, ns))))"

definition handle_leave :: "NetworkServer \<Rightarrow> nat \<Rightarrow> jval \<Rightarrow> (error + unit) \<times> NetworkServer" where
  "handle_leave ns client_socket message = (Inr (), disconnect_client client_socket ns)"

definition not_joined :: "NetworkServer \<Rightarrow> nat \<Rightarrow> bool" where
  \<comment> \<open>\<open>not client_info or not client_info.get('user_id')\<close>; an entry is a non-empty dict\<close>
  "not_joined ns client_socket =
     (case map_of (ns_clients ns) client_socket of
        None \<Rightarrow> True
      | Some client_info \<Rightarrow> \<not> truthy (ci_user_id client_info))"

definition message_broadcast_data :: "client_info \<Rightarrow> (string \<times> jval) list \<Rightarrow> real \<Rightarrow> jval" where
  "message_broadcast_data client_info data now =
     JObj [(''content'', (case map_of data ''content'' of None \<Rightarrow> JNull | Some v \<Rightarrow> v)),
           (''thread_id'', (case map_of data ''thread_id'' of None \<Rightarrow> JStr ''main'' | Some v \<Rightarrow> v)),
           (''sender_id'', ci_user_id client_info),
           (''sender_username'', ci_username client_info),
           (''timestamp'', (case map_of data ''timestamp'' of None \<Rightarrow> JFloat now | Some v \<Rightarrow> v))]"

definition image_broadcast_data :: "client_info \<Rightarrow> (string \<times> jval) list \<Rightarrow> real \<Rightarrow> jval" where
  "image_broadcast_data client_info data now =
     JObj [(''image_data'', (case map_of data ''image_data'' of None \<Rightarrow> JNull | Some v \<Rightarrow> v)),
           (''thread_id'', (case map_of data ''thread_id'' of None \<Rightarrow> JStr ''main'' | Some v \<Rightarrow> v)),
           (''sender_id'', ci_user_id client_info),
           (''sender_username'', ci_username client_info),
           (''timestamp'', (case map_of data ''timestamp'' of None \<Rightarrow> JFloat now | Some v \<Rightarrow> v))]"

definition handle_message ::
  "(nat \<Rightarrow> bool) \<Rightarrow> NetworkServer \<Rightarrow> nat \<Rightarrow> jval \<Rightarrow> real \<Rightarrow> real \<Rightarrow> (error + unit) \<times> NetworkServer" where
  \<comment> \<open>\<open>t1\<close> is the \<open>time.time()\<close> of the default timestamp, \<open>t2\<close> that of \<open>create_message\<close>\<close>
  "handle_message broken ns client_socket message t1 t2 =
     (case py_get message ''data'' (JObj []) of
        Inl e \<Rightarrow> (Inl e, ns)
      | Inr data \<Rightarrow>
          if not_joined ns client_socket then (Inr (), ns)
          else
            (case (data, map_of (ns_clients ns) client_socket) of
               (JObj d, Some client_info) \<Rightarrow>
                 (let response = create_message ''MESSAGE''
                                   (message_broadcast_data client_info d t1)
                                   (ci_user_id client_info) t2
                  in (Inr (),
                      send_to_each broken
                        (filter (\<lambda>other_socket. other_socket \<noteq> client_socket)
                           (map fst (ns_clients ns)))
                        response ns))
             | _ \<Rightarrow> (Inl AttributeError, ns)))"

definition handle_image ::
  "(nat \<Rightarrow> bool) \<Rightarrow> NetworkServer \<Rightarrow> nat \<Rightarrow> jval \<Rightarrow> real \<Rightarrow> real \<Rightarrow> (error + unit) \<times> NetworkServer" where
  "handle_image broken ns client_socket message t1 t2 =
     (case py_get message ''data'' (JObj []) of
        Inl e \<Rightarrow> (Inl e, ns)
      | Inr data \<Rightarrow>
          if not_joined ns client_socket then (Inr (), ns)
          else
            (case (data, map_of (ns_clients ns) client_socket) of
               (JObj d, Some client_info) \<Rightarrow>
                 (let response = create_message ''IMAGE''
                                   (image_broadcast_data client_info d t1)
                                   (ci_user_id client_info) t2
                  in (Inr (),
                      send_to_each broken
                        (filter (\<lambda>other_socket. other_socket \<noteq> client_socket)
                           (map fst (ns_clients ns)))
                        response ns))
             | _ \<Rightarrow> (Inl AttributeError, ns)))"

definition thread_expires_at :: "string \<Rightarrow> real \<Rightarrow> jval" where
  \<comment> \<open>\<open>time.time() + (12 * 60 * 60) if thread_id != 'main' else None\<close>\<close>
  "thread_expires_at thread_id now =
     (if thread_id \<noteq> ''main'' then JFloat (now + 12 * 60 * 60) else JNull)"

definition thread_notice :: "client_info \<Rightarrow> (string \<times> jval) list \<Rightarrow> string \<Rightarrow> jval \<Rightarrow> jval" where
  "thread_notice client_info data thread_id expires_at =
     JObj [(''thread_id'', JStr thread_id),
           (''thread_name'', (case map_of data ''thread_name'' of None \<Rightarrow> JNull | Some v \<Rightarrow> v)),
           (''is_private'', (case map_of data ''is_private'' of None \<Rightarrow> JBool False | Some v \<Rightarrow> v)),
           (''creator_username'', ci_username client_info),
           (''expires_at'', expires_at)]"

definition handle_create_thread ::
  "(jval \<Rightarrow> jval \<Rightarrow> real \<Rightarrow> error + string) \<Rightarrow> (nat \<Rightarrow> bool) \<Rightarrow> NetworkServer \<Rightarrow> nat \<Rightarrow>
   jval \<Rightarrow> real \<Rightarrow> real \<Rightarrow> real \<Rightarrow> real \<Rightarrow> (error + unit) \<times> NetworkServer" where
  \<comment> \<open>\<open>thread_hash n c t\<close> stands for \<open>sha256(f"{n}{c}{t}".encode()).hexdigest()[:16]\<close>, where
      \<open>encode\<close> raises \<open>UnicodeEncodeError\<close> on a name or creator id with a lone surrogate,
      before the thread is stored or anything is sent; \<open>t1\<close> to \<open>t4\<close> are the four
      \<open>time.time()\<close> of the call, in order\<close>
  "handle_create_thread thread_hash broken ns client_socket message t1 t2 t3 t4 =
     (case py_get message ''data'' (JObj []) of
        Inl e \<Rightarrow> (Inl e, ns)
      | Inr data \<Rightarrow>
          if not_joined ns client_socket then (Inr (), ns)
          else
            (case (data, map_of (ns_clients ns) client_socket) of
               (JObj d, Some client_info) \<Rightarrow>
                 (let thread_name = (case map_of d ''thread_name'' of None \<Rightarrow> JNull | Some v \<Rightarrow> v);
                      is_private = (case map_of d ''is_private'' of None \<Rightarrow> JBool False | Some v \<Rightarrow> v);
                      creator_id = (case map_of d ''creator_id'' of None \<Rightarrow> JNull | Some v \<Rightarrow> v)
                  in case thread_hash thread_name creator_id t1 of
                       Inl e \<Rightarrow> (Inl e, ns)
                     | Inr thread_id \<Rightarrow>
                         (let expires_at = thread_expires_at thread_id t2;
                              ns1 = ns\<lparr> ns_threads := AList.update thread_id
                                      \<lparr> ti_name = thread_name, ti_is_private = is_private,
                                        ti_created_at = t3, ti_expires_at = expires_at,
                                        ti_creator_id = creator_id \<rparr> (ns_threads ns) \<rparr>;
                              response = create_message ''CREATE_THREAD''
                                           (thread_notice client_info d thread_id expires_at)
                                           (ci_user_id client_info) t4
                          in (Inr (),
                              send_to_each broken (map fst (ns_clients ns)) response ns1)))
             | _ \<Rightarrow> (Inl AttributeError, ns)))"

record outside =
  c_fmt :: "jval \<Rightarrow> string"
  c_thread_hash :: "jval \<Rightarrow> jval \<Rightarrow> real \<Rightarrow> error + string"
  c_t1 :: real
  c_t2 :: real
  c_t3 :: real
  c_t4 :: real

definition process_message ::
  "outside \<Rightarrow> (nat \<Rightarrow> bool) \<Rightarrow> NetworkServer \<Rightarrow> nat \<Rightarrow> jval \<Rightarrow> (error + unit) \<times> NetworkServer" where
  \<comment> \<open>the record holds what the handlers draw from outside: the clock readings of the
      call in order, the hash and the f-string formatting\<close>
  "process_message c broken ns client_socket message =
     (case message_type_of message of
        Inl e \<Rightarrow> (Inl e, ns)
      | Inr message_type \<Rightarrow>
          if message_type = JStr ''JOIN'' then
            handle_join (c_fmt c) broken ns client_socket message (c_t1 c)
          else if message_type = JStr ''LEAVE'' then
            handle_leave ns client_socket message
          else if message_type = JStr ''MESSAGE'' then
            handle_message broken ns client_socket message (c_t1 c) (c_t2 c)
          else if message_type = JStr ''IMAGE'' then
            handle_image broken ns client_socket message (c_t1 c) (c_t2 c)
          else if message_type = JStr ''CREATE_THREAD'' then
            handle_create_thread (c_thread_hash c) broken ns client_socket message
              (c_t1 c) (c_t2 c) (c_t3 c) (c_t4 c)
          else (Inr (), ns))"

subsection \<open>crypto\_utils.py: the library primitives\<close>

text \<open>
  X25519, HKDF-SHA256, AES-GCM and the hexadecimal codec of \<open>bytes\<close> belong to libraries
  outside the repository; the engine is modelled over any implementation of them. A
  primitive that can raise returns a sum. \<open>hkdf n info ikm\<close> is
  \<open>HKDF(SHA256, length=n, salt=b'', info=info).derive(ikm)\<close>, and the two AES-GCM
  functions include the construction \<open>AESGCM(key)\<close>, which rejects a key of a wrong length.
\<close>

record primitives =
  x25519_public :: "bytes \<Rightarrow> bytes"
  x25519_exchange :: "bytes \<Rightarrow> bytes \<Rightarrow> error + bytes"
  hkdf :: "nat \<Rightarrow> string \<Rightarrow> bytes \<Rightarrow> bytes"
  aesgcm_encrypt :: "bytes \<Rightarrow> bytes \<Rightarrow> bytes \<Rightarrow> error + bytes"
  aesgcm_decrypt :: "bytes \<Rightarrow> bytes \<Rightarrow> bytes \<Rightarrow> error + bytes"
  hex :: "bytes \<Rightarrow> string"
  fromhex :: "string \<Rightarrow> error + bytes"

text \<open>
  A value of a Python dictionary handed to \<open>json.dumps\<close>: a JSON value or a \<open>bytes\<close>
  object, which \<open>json.dumps\<close> refuses with a \<open>TypeError\<close>.
\<close>

datatype pyval = PyBytes bytes | PyJson jval

fun json_members :: "(string \<times> pyval) list \<Rightarrow> error + (string \<times> jval) list" where
  "json_members [] = Inr []"
| "json_members ((k, PyBytes b) # rest) = Inl TypeError"
| "json_members ((k, PyJson v) # rest) =
     (case json_members rest of Inl e \<Rightarrow> Inl e | Inr kvs \<Rightarrow> Inr ((k, v) # kvs))"

definition json_dumps_dict :: "(string \<times> pyval) list \<Rightarrow> error + wire" where
  \<comment> \<open>\<open>json.dumps(d).encode()\<close> of a dictionary \<open>d\<close>\<close>
  "json_dumps_dict d =
     (case json_members d of Inl e \<Rightarrow> Inl e | Inr kvs \<Rightarrow> Inr (json_dumps (JObj kvs)))"

fun py_item :: "jval \<Rightarrow> string \<Rightarrow> error + jval" where
  \<comment> \<open>\<open>v[key]\<close> with a string key\<close>
  "py_item (JObj kvs) key = (case map_of kvs key of None \<Rightarrow> Inl KeyError | Some v \<Rightarrow> Inr v)"
| "py_item v key = Inl TypeError"

fun bytes_fromhex :: "primitives \<Rightarrow> jval \<Rightarrow> error + bytes" where
  \<comment> \<open>\<open>bytes.fromhex(v)\<close>: the argument must be a \<open>str\<close>\<close>
  "bytes_fromhex P (JStr s) = fromhex P s"
| "bytes_fromhex P v = Inl TypeError"

subsection \<open>crypto\_utils.py: DoubleRatchet\<close>

record DoubleRatchet =
  dh_ratchet :: bytes
  root_key :: bytes
  chain_keys :: "(bytes \<times> bytes) list"
  message_numbers :: "(bytes \<times> int) list"
  skip_message_keys :: "(bytes \<times> (int \<times> bytes) list) list"

definition DoubleRatchet_init :: "bytes \<Rightarrow> bytes \<Rightarrow> DoubleRatchet" where
  \<comment> \<open>the generated private key and the \<open>os.urandom(32)\<close> of the constructor\<close>
  "DoubleRatchet_init private_key rnd =
     \<lparr> dh_ratchet = private_key, root_key = rnd, chain_keys = [], message_numbers = [],
       skip_message_keys = [] \<rparr>"

definition get_public_key :: "primitives \<Rightarrow> DoubleRatchet \<Rightarrow> bytes" where
  "get_public_key P dr = x25519_public P (dh_ratchet dr)"

definition perform_dh :: "primitives \<Rightarrow> DoubleRatchet \<Rightarrow> bytes \<Rightarrow> error + bytes" where
  "perform_dh P dr other_public_key = x25519_exchange P (dh_ratchet dr) other_public_key"

definition kdf_chain_key :: "primitives \<Rightarrow> bytes \<Rightarrow> bytes \<Rightarrow> bytes \<times> bytes" where
  "kdf_chain_key P chain_key shared_secret =
     (let output = hkdf P 64 ''luckyones_ratchet'' (chain_key @ shared_secret)
      in (take 32 output, drop 32 output))"

definition kdf_root_key :: "primitives \<Rightarrow> bytes \<Rightarrow> bytes \<Rightarrow> bytes" where
  "kdf_root_key P root_key0 shared_secret =
     hkdf P 32 ''luckyones_root'' (root_key0 @ shared_secret)"

definition first_contact ::
  "primitives \<Rightarrow> DoubleRatchet \<Rightarrow> bytes \<Rightarrow> (error + bytes \<times> bytes) \<times> DoubleRatchet" where
  \<comment> \<open>the branch \<open>other_public_key not in self.chain_keys\<close>, the same six lines in
      \<open>encrypt_message\<close> and \<open>decrypt_message\<close>; the result is (chain key, message key)\<close>
  "first_contact P dr other_public_key =
     (case perform_dh P dr other_public_key of
        Inl e \<Rightarrow> (Inl e, dr)
      | Inr shared_secret \<Rightarrow>
          (let new_root = kdf_root_key P (root_key dr) shared_secret;
               (chain_key, message_key) = kdf_chain_key P new_root shared_secret
           in (Inr (chain_key, message_key),
               dr\<lparr> root_key := new_root,
                   chain_keys := AList.update other_public_key chain_key (chain_keys dr),
                   message_numbers := AList.update other_public_key 0 (message_numbers dr),
                   skip_message_keys := AList.update other_public_key [] (skip_message_keys dr) \<rparr>)))"

definition encrypt_keys ::
  "primitives \<Rightarrow> DoubleRatchet \<Rightarrow> bytes \<Rightarrow> bytes \<Rightarrow> (error + bytes \<times> bytes) \<times> DoubleRatchet" where
  \<comment> \<open>the \<open>if\<close>/\<open>else\<close> that opens \<open>encrypt_message\<close>; \<open>rnd_key\<close> is the \<open>os.urandom(32)\<close> of
      the \<open>else\<close> branch. The result is (chain key, message key).\<close>
  "encrypt_keys P dr other_public_key rnd_key =
     (case map_of (chain_keys dr) other_public_key of
        None \<Rightarrow> first_contact P dr other_public_key
      | Some chain_key \<Rightarrow> (Inr (chain_key, rnd_key), dr))"

definition encrypt_message ::
  "primitives \<Rightarrow> DoubleRatchet \<Rightarrow> bytes \<Rightarrow> bytes \<Rightarrow> bytes \<Rightarrow> bytes \<Rightarrow> (error + wire) \<times> DoubleRatchet" where
  \<comment> \<open>\<open>rnd_nonce\<close> is the \<open>os.urandom(12)\<close> of the call\<close>
  "encrypt_message P dr message other_public_key rnd_key rnd_nonce =
     (case encrypt_keys P dr other_public_key rnd_key of
        (Inl e, dr1) \<Rightarrow> (Inl e, dr1)
      | (Inr (chain_key, message_key), dr1) \<Rightarrow>
          (case aesgcm_encrypt P message_key rnd_nonce message of
             Inl e \<Rightarrow> (Inl e, dr1)
           | Inr ciphertext \<Rightarrow>
               (case map_of (message_numbers dr1) other_public_key of
                  None \<Rightarrow> (Inl KeyError, dr1)
                | Some n \<Rightarrow>
                    (let dr2 = dr1\<lparr> message_numbers :=
                                 AList.update other_public_key (n + 1) (message_numbers dr1) \<rparr>;
                         message_data =
                           [(''public_key'', PyBytes (get_public_key P dr2)),
                            (''message_number'', PyJson (JInt (n + 1))),
                            (''nonce'', PyJson (JStr (hex P rnd_nonce))),
                            (''ciphertext'', PyJson (JStr (hex P ciphertext)))]
                     in (json_dumps_dict message_data, dr2)))))"

definition decrypt_keys ::
  "primitives \<Rightarrow> DoubleRatchet \<Rightarrow> bytes \<Rightarrow> bytes \<Rightarrow> (error + bytes) \<times> DoubleRatchet" where
  \<comment> \<open>the \<open>if\<close>/\<open>else\<close> of \<open>decrypt_message\<close>; the result is the message key\<close>
  "decrypt_keys P dr other_public_key rnd_key =
     (case map_of (chain_keys dr) other_public_key of
        None \<Rightarrow>
          (case first_contact P dr other_public_key of
             (Inl e, dr1) \<Rightarrow> (Inl e, dr1)
           | (Inr (chain_key, message_key), dr1) \<Rightarrow> (Inr message_key, dr1))
      | Some chain_key \<Rightarrow> (Inr rnd_key, dr))"

definition decrypt_try ::
  "primitives \<Rightarrow> DoubleRatchet \<Rightarrow> wire \<Rightarrow> bytes \<Rightarrow> (error + bytes) \<times> DoubleRatchet" where
  \<comment> \<open>the body of the \<open>try\<close> of \<open>decrypt_message\<close>, with the exception it raises\<close>
  "decrypt_try P dr encrypted_data rnd_key =
     (case json_loads encrypted_data of
        Inl e \<Rightarrow> (Inl e, dr)
      | Inr message_data \<Rightarrow>
     (case py_item message_data ''public_key'' of
        Inl e \<Rightarrow> (Inl e, dr)
      | Inr pk_hex \<Rightarrow>
     (case bytes_fromhex P pk_hex of
        Inl e \<Rightarrow> (Inl e, dr)
      | Inr other_public_key \<Rightarrow>
     (case py_item message_data ''message_number'' of
        Inl e \<Rightarrow> (Inl e, dr)
      | Inr message_number \<Rightarrow>
     (case py_item message_data ''nonce'' of
        Inl e \<Rightarrow> (Inl e, dr)
      | Inr nonce_hex \<Rightarrow>
     (case bytes_fromhex P nonce_hex of
        Inl e \<Rightarrow> (Inl e, dr)
      | Inr nonce \<Rightarrow>
     (case py_item message_data ''ciphertext'' of
        Inl e \<Rightarrow> (Inl e, dr)
      | Inr ciphertext_hex \<Rightarrow>
     (case bytes_fromhex P ciphertext_hex of
        Inl e \<Rightarrow> (Inl e, dr)
      | Inr ciphertext \<Rightarrow>
     (case decrypt_keys P dr other_public_key rnd_key of
        (Inl e, dr1) \<Rightarrow> (Inl e, dr1)
      | (Inr message_key, dr1) \<Rightarrow>
          (aesgcm_decrypt P message_key nonce ciphertext, dr1))))))))))"

definition decrypt_message ::
  "primitives \<Rightarrow> DoubleRatchet \<Rightarrow> wire \<Rightarrow> bytes \<Rightarrow> (error + bytes) \<times> DoubleRatchet" where
  \<comment> \<open>\<open>except Exception as e: raise ValueError(...)\<close>\<close>
  "decrypt_message P dr encrypted_data rnd_key =
     (case decrypt_try P dr encrypted_data rnd_key of
        (Inl e, dr1) \<Rightarrow> (Inl ValueError, dr1)
      | (Inr plaintext, dr1) \<Rightarrow> (Inr plaintext, dr1))"

subsection \<open>Sample values for chat\_manager.py\<close>

definition sample_manager :: ImageManager where
  "sample_manager = ImageManager_init ''temp_images'' Map.empty"

definition sample_hash :: "bytes \<Rightarrow> string \<Rightarrow> real \<Rightarrow> error + string" where
  "sample_hash d s t = Inr ''00000000000000ab''"

definition sample_stored :: ImageManager where
  "sample_stored =
     \<lparr> im_temp_dir = ''temp_images'',
       im_images = [(''00000000000000ab'',
          \<lparr> i_path = ''temp_images/00000000000000ab.jpg'', i_sender_id = ''u1'',
            i_thread_id = ''main'', i_created_at = 1000, i_expires_at = 1800001000 \<rparr>)],
       im_files = [''temp_images/00000000000000ab.jpg'' \<mapsto> [1, 2, 3]],
       im_running = False \<rparr>"

definition sample_thread :: ChatThread where
  "sample_thread =
     \<lparr> t_thread_id = ''00000000000000cd'', t_name = ''room'', t_is_private = False,
       t_creator_id = Some ''u1'', t_created_at = 1000, t_expires_at = Some 43200001000,
       t_messages = [], t_participants = {} \<rparr>"

definition sample_main :: ChatThread where
  "sample_main =
     \<lparr> t_thread_id = ''main'', t_name = ''Main Chat'', t_is_private = False,
       t_creator_id = Some ''system'', t_created_at = 0, t_expires_at = None,
       t_messages = [], t_participants = {} \<rparr>"

definition sample_chat :: ChatManager where
  "sample_chat =
     \<lparr> cm_threads = [(''main'', sample_main), (''00000000000000cd'', sample_thread)],
       cm_current_thread_id = ''00000000000000cd'', cm_message_handlers = [],
       cm_thread_handlers = [7], cm_calls = [],
       cm_image_manager = sample_manager, cm_running = True \<rparr>"

definition sample_thread_hash :: "string \<Rightarrow> string option \<Rightarrow> real \<Rightarrow> error + string" where
  "sample_thread_hash n c t = Inr ''00000000000000cd''"

subsection \<open>Sample values for network\_utils.py\<close>

definition sample_client :: "nat \<Rightarrow> string \<Rightarrow> string \<Rightarrow> client_info" where
  "sample_client s uid uname =
     \<lparr> ci_socket = s, ci_address = ''127.0.0.1'', ci_user_id = JStr uid,
       ci_username = JStr uname, ci_public_key = JStr ''00'', ci_connected_at = 1 \<rparr>"

definition sample_server :: NetworkServer where
  \<comment> \<open>three joined connections A, B and C on the sockets 1, 2 and 3\<close>
  "sample_server =
     \<lparr> ns_port = 6660,
       ns_clients = [(1, sample_client 1 ''a'' ''A''), (2, sample_client 2 ''b'' ''B''),
                     (3, sample_client 3 ''c'' ''C'')],
       ns_threads = [], ns_running = True, ns_sent = [], ns_closed = [] \<rparr>"

definition sample_fresh_server :: NetworkServer where
  \<comment> \<open>one connection that has sent no JOIN\<close>
  "sample_fresh_server = register_client 4 ''127.0.0.1'' 1 (NetworkServer_init 6660)"

definition sample_text_message :: "(string \<times> jval) list" where
  "sample_text_message =
     [(''type'', JStr ''MESSAGE''), (''timestamp'', JFloat 2),
      (''data'', JObj [(''content'', JStr ''hi''), (''thread_id'', JStr ''main''),
                       (''timestamp'', JFloat 2)]),
      (''user_id'', JStr ''a'')]"

definition sample_thread_request :: "(string \<times> jval) list" where
  "sample_thread_request =
     [(''type'', JStr ''CREATE_THREAD''), (''timestamp'', JFloat 2),
      (''data'', JObj [(''thread_name'', JStr ''room''), (''is_private'', JBool False),
                       (''creator_id'', JStr ''a'')]),
      (''user_id'', JStr ''a'')]"

definition sample_net_hash :: "jval \<Rightarrow> jval \<Rightarrow> real \<Rightarrow> error + string" where
  "sample_net_hash n c t = Inr ''00000000000000cd''"

definition sample_outside :: outside where
  "sample_outside =
     \<lparr> c_fmt = (\<lambda>v. case v of JStr s \<Rightarrow> s | _ \<Rightarrow> ''None''), c_thread_hash = sample_net_hash,
       c_t1 = 3, c_t2 = 4, c_t3 = 5, c_t4 = 6 \<rparr>"

subsection \<open>Sample values for crypto\_utils.py\<close>

text \<open>
  Small stand-ins for the library primitives, to run the engine on concrete inputs: a
  Diffie-Hellman exchange in the integers modulo 23, a key derivation and an authenticated
  cipher by byte sums, and the hexadecimal codec. They are not secure and no theorem
  about the engine depends on them.
\<close>

definition toy_public :: "bytes \<Rightarrow> bytes" where
  "toy_public private_key = [5 ^ sum_list private_key mod 23]"

definition toy_exchange :: "bytes \<Rightarrow> bytes \<Rightarrow> error + bytes" where
  "toy_exchange private_key public_key =
     (case public_key of [b] \<Rightarrow> Inr [b ^ sum_list private_key mod 23] | _ \<Rightarrow> Inl ValueError)"

definition toy_hkdf :: "nat \<Rightarrow> string \<Rightarrow> bytes \<Rightarrow> bytes" where
  "toy_hkdf n info ikm =
     (let s = (sum_list ikm + length info) mod 256
      in replicate (n div 2) s @ replicate (n - n div 2) ((s + 1) mod 256))"

definition toy_tag :: "bytes \<Rightarrow> bytes \<Rightarrow> nat" where
  "toy_tag key message = (sum_list key + sum_list message) mod 256"

definition toy_encrypt :: "bytes \<Rightarrow> bytes \<Rightarrow> bytes \<Rightarrow> error + bytes" where
  "toy_encrypt key nonce message =
     (if length key = 32
      then Inr (map (\<lambda>b. (b + sum_list key + sum_list nonce) mod 256) message
                @ [toy_tag key message])
      else Inl ValueError)"

definition toy_decrypt :: "bytes \<Rightarrow> bytes \<Rightarrow> bytes \<Rightarrow> error + bytes" where
  "toy_decrypt key nonce ciphertext =
     (if length key \<noteq> 32 then Inl ValueError
      else if ciphertext = [] then Inl InvalidTag
      else (let message = map (\<lambda>b. (b + 256 - (sum_list key + sum_list nonce) mod 256) mod 256)
                            (butlast ciphertext)
            in if last ciphertext = toy_tag key message then Inr message else Inl InvalidTag))"

definition hex_digit :: "nat \<Rightarrow> char" where
  "hex_digit n = ''0123456789abcdef'' ! (n mod 16)"

definition toy_hex :: "bytes \<Rightarrow> string" where
  "toy_hex bs = concat (map (\<lambda>b. [hex_digit (b div 16), hex_digit b]) bs)"

definition hex_value :: "char \<Rightarrow> nat option" where
  "hex_value c =
     map_of [(CHR ''0'', 0), (CHR ''1'', 1), (CHR ''2'', 2), (CHR ''3'', 3), (CHR ''4'', 4),
             (CHR ''5'', 5), (CHR ''6'', 6), (CHR ''7'', 7), (CHR ''8'', 8), (CHR ''9'', 9),
             (CHR ''a'', 10), (CHR ''b'', 11), (CHR ''c'', 12), (CHR ''d'', 13),
             (CHR ''e'', 14), (CHR ''f'', 15)] c"

fun toy_fromhex :: "string \<Rightarrow> error + bytes" where
  "toy_fromhex [] = Inr []"
| "toy_fromhex [c] = Inl ValueError"
| "toy_fromhex (c # d # rest) =
     (case (hex_value c, hex_value d, toy_fromhex rest) of
        (Some h, Some l, Inr bs) \<Rightarrow> Inr ((16 * h + l) # bs)
      | _ \<Rightarrow> Inl ValueError)"

definition toy :: primitives where
  "toy = \<lparr> x25519_public = toy_public, x25519_exchange = toy_exchange, hkdf = toy_hkdf,
           aesgcm_encrypt = toy_encrypt, aesgcm_decrypt = toy_decrypt,
           hex = toy_hex, fromhex = toy_fromhex \<rparr>"

definition alice :: DoubleRatchet where
  "alice = DoubleRatchet_init [6] (replicate 32 1)"

definition bob :: DoubleRatchet where
  "bob = DoubleRatchet_init [3] (replicate 32 1)"

definition sample_first_message :: wire where
  \<comment> \<open>what a sender with the key pair of \<open>alice\<close> and the root key of \<open>bob\<close> sends first:
      the plaintext \<open>[104, 105]\<close> under the first message key and the nonce of twelve bytes 3\<close>
  "sample_first_message =
     JsonText (JObj [(''public_key'', JStr ''08''), (''message_number'', JInt 1),
                     (''nonce'', JStr ''030303030303030303030303''),
                     (''ciphertext'', JStr ''8c8dd1'')])"

definition sample_later_message :: "int \<Rightarrow> wire" where
  \<comment> \<open>a later message of the same sender, numbered \<open>n\<close>: the plaintext \<open>[110, 111]\<close> under
      the key that \<open>kdf_chain_key\<close> derives from the chain key of the first contact\<close>
  "sample_later_message n =
     JsonText (JObj [(''public_key'', JStr ''08''), (''message_number'', JInt n),
                     (''nonce'', JStr ''030303030303030303030303''),
                     (''ciphertext'', JStr ''9293dd'')])"

definition sample_nonce :: bytes where
  "sample_nonce = [3, 3, 3, 3, 3, 3, 3, 3, 3, 3, 3, 3]"

definition alice_known :: DoubleRatchet where
  \<comment> \<open>\<open>alice\<close> after first contact with the public key \<open>[10]\<close> of \<open>bob\<close>\<close>
  "alice_known =
     \<lparr> dh_ratchet = [6], root_key = replicate 16 52 @ replicate 16 53,
       chain_keys = [([10], replicate 32 167)], message_numbers = [([10], 0)],
       skip_message_keys = [([10], [])] \<rparr>"

definition bob_known :: DoubleRatchet where
  \<comment> \<open>\<open>bob\<close> after first contact with the public key \<open>[8]\<close> of \<open>alice\<close>\<close>
  "bob_known =
     \<lparr> dh_ratchet = [3], root_key = replicate 16 52 @ replicate 16 53,
       chain_keys = [([8], replicate 32 167)], message_numbers = [([8], 0)],
       skip_message_keys = [([8], [])] \<rparr>"

section \<open>Properties of chat\_manager.py\<close>

subsection \<open>Image expiry\<close>

lemma delete_image_images_None:
  "map_of (im_images im) k = None \<Longrightarrow> map_of (im_images (delete_image j im)) k = None"
  by (simp add: delete_image_def AList.delete_conv' split: option.splits)

lemma delete_image_files_None:
  "im_files im p = None \<Longrightarrow> im_files (delete_image j im) p = None"
  by (simp add: delete_image_def split: option.splits)

lemma delete_image_same:
  "map_of (im_images (delete_image k im)) k = None"
  by (simp add: delete_image_def AList.delete_conv' split: option.splits)

lemma delete_image_file_gone:
  "map_of (im_images im) k = Some info \<Longrightarrow> im_files (delete_image k im) (i_path info) = None"
  by (simp add: delete_image_def)

lemma delete_image_other:
  "j \<noteq> k \<Longrightarrow> map_of (im_images (delete_image j im)) k = map_of (im_images im) k"
  by (simp add: delete_image_def split: option.splits)

lemma fold_delete_image_None:
  "map_of (im_images im) k = None \<Longrightarrow> im_files im p = None \<Longrightarrow>
   map_of (im_images (fold delete_image ids im)) k = None \<and>
   im_files (fold delete_image ids im) p = None"
  by (induction ids arbitrary: im) (simp_all add: delete_image_images_None delete_image_files_None)

lemma fold_delete_image_gone:
  "k \<in> set ids \<Longrightarrow> map_of (im_images im) k = Some info \<Longrightarrow>
   map_of (im_images (fold delete_image ids im)) k = None \<and>
   im_files (fold delete_image ids im) (i_path info) = None"
proof (induction ids arbitrary: im)
  case Nil
  then show ?case by simp
next
  case (Cons j ids)
  show ?case
  proof (cases "j = k")
    case True
    then show ?thesis
      using Cons.prems fold_delete_image_None [OF delete_image_same delete_image_file_gone]
      by simp
  next
    case False
    then have "k \<in> set ids" "map_of (im_images (delete_image j im)) k = Some info"
      using Cons.prems by (simp_all add: delete_image_other)
    then show ?thesis using Cons.IH by simp
  qed
qed

lemma expired_images_mem:
  "map_of (im_images im) k = Some info \<Longrightarrow> now > i_expires_at info \<Longrightarrow>
   k \<in> set (expired_images im now)"
  by (force simp: expired_images_def dest: map_of_SomeD)

lemma image_cleanup_pass_gone:
  "map_of (im_images im) k = Some info \<Longrightarrow> now > i_expires_at info \<Longrightarrow>
   map_of (im_images (image_cleanup_pass now im)) k = None \<and>
   im_files (image_cleanup_pass now im) (i_path info) = None"
  unfolding image_cleanup_pass_def
  by (rule fold_delete_image_gone [OF expired_images_mem])

lemma timedelta_minutes_30: "timedelta_minutes 30 = Inr 1800000000"
  by (simp add: timedelta_minutes_def timedelta_of_def)

lemma store_image_Inr:
  assumes "store_image ih im d s th t now1 now2 = (Inr image_id, im')"
  shows "ih d s t = Inr image_id"
    and "map_of (im_images im') image_id =
           Some \<lparr> i_path = path_join (im_temp_dir im) (image_id @ ''.jpg''), i_sender_id = s,
                  i_thread_id = th, i_created_at = now1, i_expires_at = now2 + 1800000000 \<rparr>"
    and "im_files im' (path_join (im_temp_dir im) (image_id @ ''.jpg'')) = Some d"
  using assms
  by (auto simp: store_image_def Let_def timedelta_minutes_30 datetime_add_def
      AList.update_conv' split: if_splits sum.splits)

lemma sample_store:
  "store_image sample_hash sample_manager [1, 2, 3] ''u1'' ''main'' 5 1000 1000 =
     (Inr ''00000000000000ab'', sample_stored)"
  by (simp add: store_image_def sample_hash_def sample_manager_def sample_stored_def
      ImageManager_init_def timedelta_minutes_30 datetime_add_def path_join_def Let_def)

text \<open>
  Claim C4, as the code has it. An image stored by \<open>store_image\<close> gets
  \<open>created_at = now1\<close> and \<open>expires_at = now2 + 30 minutes\<close>, where \<open>now1\<close> and \<open>now2\<close> are the
  two clock readings of the call. \<open>get_image\<close> returns the stored bytes at every instant up to
  and including \<open>expires_at\<close>, and returns \<open>None\<close> strictly after it, deleting the entry and
  the file on that access; a cleanup round run strictly after \<open>expires_at\<close> removes the
  entry and the file as well.
\<close>

theorem image_expiry_as_coded:
  assumes "store_image ih im d s th t now1 now2 = (Inr image_id, im')"
  shows "(\<exists>info. map_of (im_images im') image_id = Some info \<and> i_created_at info = now1 \<and>
            i_expires_at info = now2 + 1800000000 \<and>
            i_path info = path_join (im_temp_dir im) (image_id @ ''.jpg'')) \<and>
         get_image im' image_id now =
           (if now > now2 + 1800000000 then (None, delete_image image_id im')
            else (Some d, im')) \<and>
         map_of (im_images (delete_image image_id im')) image_id = None \<and>
         im_files (delete_image image_id im')
           (path_join (im_temp_dir im) (image_id @ ''.jpg'')) = None \<and>
         (now > now2 + 1800000000 \<longrightarrow>
            map_of (im_images (image_cleanup_pass now im')) image_id = None \<and>
            im_files (image_cleanup_pass now im')
              (path_join (im_temp_dir im) (image_id @ ''.jpg'')) = None)"
proof -
  let ?p = "path_join (im_temp_dir im) (image_id @ ''.jpg'')"
  let ?info = "\<lparr> i_path = ?p, i_sender_id = s, i_thread_id = th, i_created_at = now1,
                  i_expires_at = now2 + 1800000000 \<rparr>"
  have entry: "map_of (im_images im') image_id = Some ?info"
    and stored: "im_files im' ?p = Some d"
    using store_image_Inr [OF assms] by simp_all
  have a: "\<exists>info. map_of (im_images im') image_id = Some info \<and> i_created_at info = now1 \<and>
            i_expires_at info = now2 + 1800000000 \<and> i_path info = ?p"
    using entry by simp
  have b: "get_image im' image_id now =
           (if now > now2 + 1800000000 then (None, delete_image image_id im')
            else (Some d, im'))"
    using entry stored by (simp add: get_image_def)
  have c: "map_of (im_images (delete_image image_id im')) image_id = None"
    by (rule delete_image_same)
  have d: "im_files (delete_image image_id im') ?p = None"
    using delete_image_file_gone [OF entry] by simp
  have e: "now > now2 + 1800000000 \<longrightarrow>
            map_of (im_images (image_cleanup_pass now im')) image_id = None \<and>
            im_files (image_cleanup_pass now im') ?p = None"
    using image_cleanup_pass_gone [OF entry, of now] by simp
  show ?thesis using a b c d e by blast
qed

theorem image_expiry_as_coded_witness:
  "store_image sample_hash sample_manager [1, 2, 3] ''u1'' ''main'' 5 1000 1000 =
     (Inr ''00000000000000ab'', sample_stored) \<and>
   get_image sample_stored ''00000000000000ab'' 1800001000 = (Some [1, 2, 3], sample_stored) \<and>
   get_image sample_stored ''00000000000000ab'' 1800001001 =
     (None, delete_image ''00000000000000ab'' sample_stored) \<and>
   map_of (im_images (delete_image ''00000000000000ab'' sample_stored)) ''00000000000000ab'' = None \<and>
   im_files (delete_image ''00000000000000ab'' sample_stored)
     ''temp_images/00000000000000ab.jpg'' = None \<and>
   map_of (im_images (image_cleanup_pass 1800001001 sample_stored)) ''00000000000000ab'' = None \<and>
   im_files (image_cleanup_pass 1800001001 sample_stored)
     ''temp_images/00000000000000ab.jpg'' = None"
proof -
  have p: "path_join (im_temp_dir sample_manager) (''00000000000000ab'' @ ''.jpg'') =
           ''temp_images/00000000000000ab.jpg''"
    by (simp add: path_join_def sample_manager_def ImageManager_init_def)
  show ?thesis
    using image_expiry_as_coded [OF sample_store, of 1800001000]
      image_expiry_as_coded [OF sample_store, of 1800001001] sample_store
    unfolding p by simp
qed

text \<open>
  Claim C4 as the specification states it fails at the boundary: at the instant
  \<open>created_at + 30 minutes\<close> itself the comparison \<open>datetime.now() > expires_at\<close> is false and
  \<open>get_image\<close> still returns the image.
\<close>

theorem image_served_at_expiry_instant:
  "\<not> (\<forall>ih im d s th t now1 now2 image_id im' now.
        store_image ih im d s th t now1 now2 = (Inr image_id, im') \<and> now \<ge> now1 + 1800000000
        \<longrightarrow> fst (get_image im' image_id now) = None)"
proof
  assume a: "\<forall>ih im d s th t now1 now2 image_id im' now.
        store_image ih im d s th t now1 now2 = (Inr image_id, im') \<and> now \<ge> now1 + 1800000000
        \<longrightarrow> fst (get_image im' image_id now) = None"
  have "fst (get_image sample_stored ''00000000000000ab'' 1800001000) = None"
    using a sample_store by force
  then show False
    by (simp add: get_image_def sample_stored_def)
qed

subsection \<open>Thread expiry and the main thread\<close>

lemma delete_thread_keeps_main:
  "map_of (cm_threads (delete_thread thread_id cm)) ''main'' = map_of (cm_threads cm) ''main''"
  by (simp add: delete_thread_def notify_def split: option.splits)

lemma sweep_keeps_main:
  "map_of (cm_threads
     (fold (\<lambda>thread_id s. if thread_id \<noteq> ''main'' then delete_thread thread_id s else s) ids cm))
     ''main'' = map_of (cm_threads cm) ''main''"
  by (induction ids arbitrary: cm) (simp_all add: delete_thread_keeps_main)

lemma cleanup_pass_keeps_main:
  "map_of (cm_threads (cleanup_pass clock cm)) ''main'' = map_of (cm_threads cm) ''main''"
  by (simp add: cleanup_pass_def sweep_keeps_main)

lemma cleanup_passes_keep_main:
  "map_of (cm_threads (fold cleanup_pass clocks cm)) ''main'' = map_of (cm_threads cm) ''main''"
  by (induction clocks arbitrary: cm) (simp_all add: cleanup_pass_keeps_main)

lemma ChatThread_init_no_ttl:
  "expires_hours \<le> 0 \<or> thread_id = ''main'' \<Longrightarrow>
   \<exists>t. ChatThread_init thread_id name is_private creator_id expires_hours now = Inr t \<and>
       t_expires_at t = None \<and> t_created_at t = now"
  by (auto simp: ChatThread_init_def Let_def)

lemma ChatThread_init_ttl:
  "0 < expires_hours \<Longrightarrow> thread_id \<noteq> ''main'' \<Longrightarrow>
   ChatThread_init thread_id name is_private creator_id expires_hours now = Inr t \<Longrightarrow>
   t_expires_at t = Some (now + expires_hours * 3600000000) \<and> t_created_at t = now"
  by (auto simp: ChatThread_init_def Let_def timedelta_hours_def timedelta_of_def
      datetime_add_def split: if_splits sum.splits)

lemma sample_thread_init:
  "ChatThread_init ''00000000000000cd'' ''room'' False (Some ''u1'') 12 1000 = Inr sample_thread"
  by (simp add: ChatThread_init_def sample_thread_def timedelta_hours_def timedelta_of_def
      datetime_add_def)

text \<open>
  Claim C7. Any number of cleanup rounds, whatever the clock reads, leaves the registry's
  entry for \<open>main\<close> as it was; a thread constructed with \<open>expires_hours = 0\<close> is never
  expired; and a thread constructed with a positive \<open>expires_hours\<close> is expired exactly when
  its id is not \<open>main\<close> and the clock is strictly past \<open>created_at\<close> plus that many hours
  (so only once the clock exceeds \<open>created_at + TTL\<close>).
\<close>

theorem thread_expiry_rules:
  "map_of (cm_threads (fold cleanup_pass clocks cm)) ''main'' = map_of (cm_threads cm) ''main'' \<and>
   (\<exists>t0. ChatThread_init thread_id name is_private creator_id 0 now = Inr t0 \<and>
         (\<forall>now'. \<not> is_expired t0 now')) \<and>
   (0 < expires_hours \<and>
    ChatThread_init thread_id name is_private creator_id expires_hours now = Inr t \<longrightarrow>
      t_created_at t = now \<and>
      (is_expired t now' \<longleftrightarrow>
         thread_id \<noteq> ''main'' \<and> now' > t_created_at t + expires_hours * 3600000000))"
proof -
  have a: "map_of (cm_threads (fold cleanup_pass clocks cm)) ''main'' =
           map_of (cm_threads cm) ''main''"
    by (rule cleanup_passes_keep_main)
  have b: "\<exists>t0. ChatThread_init thread_id name is_private creator_id 0 now = Inr t0 \<and>
         (\<forall>now'. \<not> is_expired t0 now')"
    using ChatThread_init_no_ttl [of 0 thread_id name is_private creator_id now]
    by (auto simp: is_expired_def)
  have c: "t_created_at t = now \<and>
      (is_expired t now' \<longleftrightarrow>
         thread_id \<noteq> ''main'' \<and> now' > t_created_at t + expires_hours * 3600000000)"
    if h: "0 < expires_hours"
      and i: "ChatThread_init thread_id name is_private creator_id expires_hours now = Inr t"
  proof (cases "thread_id = ''main''")
    case True
    then show ?thesis
      using i ChatThread_init_no_ttl [of expires_hours thread_id name is_private creator_id now]
      by (auto simp: is_expired_def)
  next
    case False
    then show ?thesis
      using ChatThread_init_ttl [OF h False i] by (simp add: is_expired_def)
  qed
  show ?thesis using a b c by blast
qed

theorem thread_expiry_rules_witness:
  "(0::int) < 12 \<and>
   ChatThread_init ''00000000000000cd'' ''room'' False (Some ''u1'') 12 1000 = Inr sample_thread \<and>
   t_created_at sample_thread = 1000 \<and>
   \<not> is_expired sample_thread 43200001000 \<and>
   is_expired sample_thread 43200001001"
  using sample_thread_init
    thread_expiry_rules [of "[]" sample_chat "''00000000000000cd''" "''room''" False "Some ''u1''"
      1000 12 sample_thread 43200001000]
    thread_expiry_rules [of "[]" sample_chat "''00000000000000cd''" "''room''" False "Some ''u1''"
      1000 12 sample_thread 43200001001]
  by simp

subsection \<open>The registry invariant\<close>

lemma registry_ok_threads_cong:
  "cm_threads cm' = cm_threads cm \<Longrightarrow> cm_current_thread_id cm' = cm_current_thread_id cm \<Longrightarrow>
   registry_ok cm' = registry_ok cm"
  by (simp add: registry_ok_def)

lemma registry_ok_update:
  "registry_ok cm \<Longrightarrow>
   registry_ok (cm\<lparr> cm_threads := AList.update k v (cm_threads cm) \<rparr>)"
  by (simp add: registry_ok_def AList.update_conv')

lemma registry_ok_notify: "registry_ok (notify hs ev cm) = registry_ok cm"
  by (simp add: registry_ok_def notify_def)

lemma registry_ok_create_thread:
  "registry_ok cm \<Longrightarrow> create_thread th cm name is_private creator_id t now = Inr (i, cm') \<Longrightarrow>
   registry_ok cm'"
  by (auto simp: create_thread_def Let_def registry_ok_notify registry_ok_update
      split: sum.splits)

lemma registry_ok_add_message:
  "registry_ok cm \<Longrightarrow>
   registry_ok (snd (add_message cm content sender_id sender_username thread_id message_type t now))"
  by (auto simp: add_message_def Let_def registry_ok_notify registry_ok_update
      split: option.splits)

lemma registry_ok_image_manager:
  "registry_ok (cm\<lparr> cm_image_manager := im \<rparr>) = registry_ok cm"
  by (simp add: registry_ok_def)

lemma registry_ok_add_image_message:
  "registry_ok cm \<Longrightarrow>
   registry_ok (snd (add_image_message ih cm image_data sender_id sender_username thread_id
                       t1 now1 now2 t2 now3))"
  by (auto simp: add_image_message_def Let_def notify_def registry_ok_def
      AList.update_conv' split: option.splits sum.splits prod.splits)

lemma registry_ok_set_current_thread:
  "registry_ok cm \<Longrightarrow> registry_ok (set_current_thread thread_id cm)"
  by (simp add: set_current_thread_def registry_ok_def)

lemma registry_ok_delete_thread:
  "registry_ok cm \<Longrightarrow> registry_ok (delete_thread thread_id cm)"
  by (auto simp: delete_thread_def registry_ok_def notify_def AList.delete_conv'
      split: option.splits)

lemma registry_ok_sweep:
  "registry_ok cm \<Longrightarrow>
   registry_ok
     (fold (\<lambda>thread_id s. if thread_id \<noteq> ''main'' then delete_thread thread_id s else s) ids cm)"
  by (induction ids arbitrary: cm) (simp_all add: registry_ok_delete_thread)

lemma registry_ok_cleanup_pass: "registry_ok cm \<Longrightarrow> registry_ok (cleanup_pass clock cm)"
  by (simp add: cleanup_pass_def registry_ok_sweep)

lemma registry_ok_start: "registry_ok (ChatManager_start cm) = registry_ok cm"
  by (simp add: ChatManager_start_def registry_ok_def)

lemma registry_ok_stop: "registry_ok (ChatManager_stop cm) = registry_ok cm"
  by (simp add: ChatManager_stop_def registry_ok_def)

lemma registry_ok_register_message_handler:
  "registry_ok (register_message_handler h cm) = registry_ok cm"
  by (simp add: register_message_handler_def registry_ok_def)

lemma registry_ok_register_thread_handler:
  "registry_ok (register_thread_handler h cm) = registry_ok cm"
  by (simp add: register_thread_handler_def registry_ok_def)

lemma registry_ok_apply_op: "registry_ok cm \<Longrightarrow> registry_ok (apply_op ih th op cm)"
proof (cases op)
  case (CreateThread name is_private creator_id t now)
  assume "registry_ok cm"
  then show ?thesis
    using CreateThread registry_ok_create_thread [of cm th name is_private creator_id t now]
    by (auto split: sum.splits)
qed (simp_all add: registry_ok_add_message registry_ok_add_image_message
    registry_ok_set_current_thread registry_ok_delete_thread registry_ok_cleanup_pass
    registry_ok_start registry_ok_stop registry_ok_register_message_handler
    registry_ok_register_thread_handler)

lemma registry_ok_run:
  "registry_ok cm \<Longrightarrow> registry_ok (fold (apply_op ih th) ops cm)"
  by (induction ops arbitrary: cm) (simp_all add: registry_ok_apply_op)

lemma ChatManager_init_ok:
  "\<exists>cm0. ChatManager_init files now = Inr cm0 \<and> cm_current_thread_id cm0 = ''main'' \<and>
         map fst (cm_threads cm0) = [''main''] \<and> registry_ok cm0"
  by (simp add: ChatManager_init_def create_main_thread_def ChatThread_init_def registry_ok_def)

text \<open>
  Claim C10. A freshly constructed \<open>ChatManager\<close> has the thread \<open>main\<close> registered and
  selected, and after any sequence of operations \<open>main\<close> is registered and
  \<open>current_thread_id\<close> names a registered thread; every single operation preserves this;
  \<open>set_current_thread\<close> with an unknown id changes nothing; and deleting the selected
  thread (not \<open>main\<close>) selects \<open>main\<close>.
\<close>

theorem main_and_current_thread_registered:
  "(\<exists>cm0. ChatManager_init files now = Inr cm0 \<and> cm_current_thread_id cm0 = ''main'' \<and>
          map_of (cm_threads cm0) ''main'' \<noteq> None \<and>
          registry_ok (fold (apply_op ih th) ops cm0)) \<and>
   (registry_ok cm \<longrightarrow> registry_ok (apply_op ih th op cm)) \<and>
   (map_of (cm_threads cm) thread_id = None \<longrightarrow> set_current_thread thread_id cm = cm) \<and>
   (cm_current_thread_id cm = thread_id \<and> map_of (cm_threads cm) thread_id \<noteq> None \<and>
    thread_id \<noteq> ''main'' \<longrightarrow>
      cm_current_thread_id (delete_thread thread_id cm) = ''main'' \<and>
      map_of (cm_threads (delete_thread thread_id cm)) thread_id = None)"
proof -
  obtain cm0 where i: "ChatManager_init files now = Inr cm0"
    "cm_current_thread_id cm0 = ''main''" "registry_ok cm0"
    using ChatManager_init_ok by blast
  have a: "\<exists>cm0. ChatManager_init files now = Inr cm0 \<and> cm_current_thread_id cm0 = ''main'' \<and>
          map_of (cm_threads cm0) ''main'' \<noteq> None \<and>
          registry_ok (fold (apply_op ih th) ops cm0)"
    using i registry_ok_run [OF i(3)] by (auto simp: registry_ok_def)
  have b: "registry_ok cm \<longrightarrow> registry_ok (apply_op ih th op cm)"
    by (simp add: registry_ok_apply_op)
  have c: "map_of (cm_threads cm) thread_id = None \<longrightarrow> set_current_thread thread_id cm = cm"
    by (simp add: set_current_thread_def)
  have d: "cm_current_thread_id cm = thread_id \<and> map_of (cm_threads cm) thread_id \<noteq> None \<and>
    thread_id \<noteq> ''main'' \<longrightarrow>
      cm_current_thread_id (delete_thread thread_id cm) = ''main'' \<and>
      map_of (cm_threads (delete_thread thread_id cm)) thread_id = None"
    by (auto simp: delete_thread_def notify_def AList.delete_conv')
  show ?thesis using a b c d by blast
qed

theorem main_and_current_thread_registered_witness:
  "registry_ok sample_chat \<and>
   registry_ok (apply_op sample_hash sample_thread_hash (DeleteThread ''00000000000000cd'') sample_chat) \<and>
   map_of (cm_threads sample_chat) ''00000000000000ef'' = None \<and>
   set_current_thread ''00000000000000ef'' sample_chat = sample_chat \<and>
   cm_current_thread_id sample_chat = ''00000000000000cd'' \<and>
   map_of (cm_threads sample_chat) ''00000000000000cd'' \<noteq> None \<and>
   cm_current_thread_id (delete_thread ''00000000000000cd'' sample_chat) = ''main'' \<and>
   map_of (cm_threads (delete_thread ''00000000000000cd'' sample_chat)) ''00000000000000cd'' = None"
proof -
  have a: "registry_ok sample_chat"
    by (simp add: registry_ok_def sample_chat_def)
  have b: "map_of (cm_threads sample_chat) ''00000000000000ef'' = None"
    by (simp add: sample_chat_def)
  have c: "cm_current_thread_id sample_chat = ''00000000000000cd''"
    "map_of (cm_threads sample_chat) ''00000000000000cd'' \<noteq> None"
    by (simp_all add: sample_chat_def)
  show ?thesis
    using a b c
      main_and_current_thread_registered [of Map.empty 0 sample_hash sample_thread_hash "[]" sample_chat
        "DeleteThread ''00000000000000cd''" "''00000000000000ef''"]
      main_and_current_thread_registered [of Map.empty 0 sample_hash sample_thread_hash "[]" sample_chat
        "DeleteThread ''00000000000000cd''" "''00000000000000cd''"]
    by simp
qed

section \<open>Properties of network\_utils.py\<close>

subsection \<open>Broadcast\<close>

lemma send_to_each_eq:
  "send_to_each broken sockets response ns =
     ns\<lparr> ns_sent := ns_sent ns @ map (\<lambda>s. (s, response)) sockets \<rparr>"
  unfolding send_to_each_def
  by (induction sockets arbitrary: ns) (simp_all add: send_def)

lemma joined_not_not_joined:
  "map_of (ns_clients ns) client_socket = Some client_info \<Longrightarrow> truthy (ci_user_id client_info) \<Longrightarrow>
   \<not> not_joined ns client_socket"
  by (simp add: not_joined_def)

lemma data_object:
  "py_get (JObj m) ''data'' (JObj []) = Inr (JObj d) \<Longrightarrow>
   (case map_of m ''data'' of None \<Rightarrow> JObj [] | Some v \<Rightarrow> v) = JObj d"
  by simp

lemma sample_sender:
  "map_of (ns_clients sample_server) 1 = Some (sample_client 1 ''a'' ''A'')"
  "truthy (ci_user_id (sample_client 1 ''a'' ''A''))"
  "py_get (JObj sample_text_message) ''data'' (JObj []) =
     Inr (JObj [(''content'', JStr ''hi''), (''thread_id'', JStr ''main''),
                (''timestamp'', JFloat 2)])"
  "py_get (JObj sample_thread_request) ''data'' (JObj []) =
     Inr (JObj [(''thread_name'', JStr ''room''), (''is_private'', JBool False),
                (''creator_id'', JStr ''a'')])"
  by (simp_all add: sample_server_def sample_client_def sample_text_message_def
      sample_thread_request_def)

lemma message_and_image_skip_sender:
  assumes c: "map_of (ns_clients ns) client_socket = Some client_info"
    and j: "truthy (ci_user_id client_info)"
    and d: "py_get (JObj m) ''data'' (JObj []) = Inr (JObj d)"
  shows "handle_message broken ns client_socket (JObj m) t1 t2 =
           (Inr (),
            ns\<lparr> ns_sent := ns_sent ns @
                 map (\<lambda>s. (s, create_message ''MESSAGE''
                                (message_broadcast_data client_info d t1)
                                (ci_user_id client_info) t2))
                   (filter (\<lambda>s. s \<noteq> client_socket) (map fst (ns_clients ns))) \<rparr>)"
    and "handle_image broken ns client_socket (JObj m) t1 t2 =
           (Inr (),
            ns\<lparr> ns_sent := ns_sent ns @
                 map (\<lambda>s. (s, create_message ''IMAGE''
                                (image_broadcast_data client_info d t1)
                                (ci_user_id client_info) t2))
                   (filter (\<lambda>s. s \<noteq> client_socket) (map fst (ns_clients ns))) \<rparr>)"
  using c d joined_not_not_joined [OF c j]
  by (simp_all add: handle_message_def handle_image_def send_to_each_eq)

lemma thread_notice_recipients:
  assumes c: "map_of (ns_clients ns) client_socket = Some client_info"
    and j: "truthy (ci_user_id client_info)"
    and d: "py_get (JObj m) ''data'' (JObj []) = Inr (JObj d)"
    and h: "thread_hash (case map_of d ''thread_name'' of None \<Rightarrow> JNull | Some v \<Rightarrow> v)
              (case map_of d ''creator_id'' of None \<Rightarrow> JNull | Some v \<Rightarrow> v) t1 = Inr thread_id"
  shows "fst (handle_create_thread thread_hash broken ns client_socket (JObj m) t1 t2 t3 t4) =
           Inr ()"
    and "ns_clients (snd (handle_create_thread thread_hash broken ns client_socket (JObj m)
                            t1 t2 t3 t4)) = ns_clients ns"
    and "ns_sent (snd (handle_create_thread thread_hash broken ns client_socket (JObj m)
                         t1 t2 t3 t4)) =
           ns_sent ns @
             map (\<lambda>s. (s, create_message ''CREATE_THREAD''
                            (thread_notice client_info d thread_id
                               (thread_expires_at thread_id t2))
                            (ci_user_id client_info) t4))
               (map fst (ns_clients ns))"
  using c d h joined_not_not_joined [OF c j]
  by (simp_all add: handle_create_thread_def send_to_each_eq Let_def)

lemma thread_name_not_encodable:
  assumes c: "map_of (ns_clients ns) client_socket = Some client_info"
    and j: "truthy (ci_user_id client_info)"
    and d: "py_get (JObj m) ''data'' (JObj []) = Inr (JObj d)"
    and h: "thread_hash (case map_of d ''thread_name'' of None \<Rightarrow> JNull | Some v \<Rightarrow> v)
              (case map_of d ''creator_id'' of None \<Rightarrow> JNull | Some v \<Rightarrow> v) t1 = Inl e"
  shows "handle_create_thread thread_hash broken ns client_socket (JObj m) t1 t2 t3 t4 =
           (Inl e, ns)"
  using c d h joined_not_not_joined [OF c j]
  by (simp add: handle_create_thread_def Let_def)

lemma sample_message_targets:
  "map fst (ns_sent (snd (handle_message (\<lambda>s. False) sample_server 1
                            (JObj sample_text_message) 3 4))) = [2, 3]"
  using message_and_image_skip_sender(1) [OF sample_sender(1,2,3), of "\<lambda>s. False" 3 4]
  by (simp add: sample_server_def comp_def)

lemma sample_thread_notice_targets:
  "map fst (ns_sent (snd (handle_create_thread sample_net_hash (\<lambda>s. False) sample_server 1
                            (JObj sample_thread_request) 3 4 5 6))) = [1, 2, 3]"
  using thread_notice_recipients(3) [OF sample_sender(1,2,4), of sample_net_hash 3
      "''00000000000000cd''" "\<lambda>s. False" 4 5 6]
  by (simp add: sample_net_hash_def sample_server_def comp_def)

text \<open>
  Claim C5 asks that an envelope is never delivered back to the connection it came from.
  With A, B and C joined on the sockets 1, 2 and 3, a MESSAGE from A is sent to B and C
  only, as the claim says; a CREATE_THREAD from A is sent to A as well: the loop of
  \<open>_handle_create_thread\<close> lacks the test \<open>other_socket != client_socket\<close> that the loops of
  \<open>_handle_message\<close> and \<open>_handle_image\<close> have.
\<close>

theorem thread_notice_sent_to_creator:
  "map fst (ns_sent (snd (handle_message (\<lambda>s. False) sample_server 1
                            (JObj sample_text_message) 3 4))) = [2, 3] \<and>
   map fst (ns_sent (snd (handle_create_thread sample_net_hash (\<lambda>s. False) sample_server 1
                            (JObj sample_thread_request) 3 4 5 6))) = [1, 2, 3]"
  using sample_message_targets sample_thread_notice_targets by simp

subsection \<open>Requests before JOIN\<close>

text \<open>
  Claim C9. On a connection that is not joined (no entry, or an entry whose \<open>user_id\<close> is
  \<open>None\<close> or otherwise falsy), the handlers of MESSAGE, IMAGE and CREATE_THREAD return
  normally, call no \<open>send\<close> and leave the server's state as it was; so does
  \<open>_process_message\<close> on an envelope of one of these three types.
\<close>

theorem unjoined_requests_dropped:
  assumes "not_joined ns client_socket"
  shows "handle_message broken ns client_socket (JObj m) t1 t2 = (Inr (), ns) \<and>
         handle_image broken ns client_socket (JObj m) t1 t2 = (Inr (), ns) \<and>
         handle_create_thread thread_hash broken ns client_socket (JObj m) t1 t2 t3 t4 = (Inr (), ns) \<and>
         (map_of m ''type'' = Some (JStr ''MESSAGE'') \<or> map_of m ''type'' = Some (JStr ''IMAGE'') \<or>
          map_of m ''type'' = Some (JStr ''CREATE_THREAD'') \<longrightarrow>
            process_message c broken ns client_socket (JObj m) = (Inr (), ns))"
proof -
  have a: "handle_message broken ns client_socket (JObj m) t1 t2 = (Inr (), ns)" for t1 t2
    using assms by (simp add: handle_message_def)
  have b: "handle_image broken ns client_socket (JObj m) t1 t2 = (Inr (), ns)" for t1 t2
    using assms by (simp add: handle_image_def)
  have e: "handle_create_thread thread_hash broken ns client_socket (JObj m) t1 t2 t3 t4 = (Inr (), ns)"
    for thread_hash t1 t2 t3 t4
    using assms by (simp add: handle_create_thread_def)
  have f: "process_message c broken ns client_socket (JObj m) = (Inr (), ns)"
    if "map_of m ''type'' = Some (JStr ''MESSAGE'') \<or> map_of m ''type'' = Some (JStr ''IMAGE'') \<or>
          map_of m ''type'' = Some (JStr ''CREATE_THREAD'')"
    using that a b e by (auto simp: process_message_def message_type_of_def)
  show ?thesis using a b e f by blast
qed

theorem unjoined_requests_dropped_witness:
  "not_joined sample_fresh_server 4 \<and>
   map_of sample_text_message ''type'' = Some (JStr ''MESSAGE'') \<and>
   handle_message (\<lambda>s. False) sample_fresh_server 4 (JObj sample_text_message) 3 4 =
     (Inr (), sample_fresh_server) \<and>
   handle_create_thread sample_net_hash (\<lambda>s. False) sample_fresh_server 4
     (JObj sample_thread_request) 3 4 5 6 = (Inr (), sample_fresh_server) \<and>
   process_message sample_outside (\<lambda>s. False) sample_fresh_server 4 (JObj sample_text_message) =
     (Inr (), sample_fresh_server)"
proof -
  have n: "not_joined sample_fresh_server 4"
    by (simp add: not_joined_def sample_fresh_server_def register_client_def
        NetworkServer_init_def)
  have t: "map_of sample_text_message ''type'' = Some (JStr ''MESSAGE'')"
    by (simp add: sample_text_message_def)
  show ?thesis
    using n t
      unjoined_requests_dropped [OF n, of "\<lambda>s. False" sample_text_message 3 4 sample_net_hash
        5 6 sample_outside]
      unjoined_requests_dropped [OF n, of "\<lambda>s. False" sample_thread_request 3 4 sample_net_hash
        5 6 sample_outside]
    by simp
qed

subsection \<open>Decoding\<close>

text \<open>
  Claim C6, as the code has it. \<open>parse_message\<close> never raises: on bytes that do not decode
  it returns the ERROR envelope, and on bytes that decode it returns the decoded value
  as it is. The result's type is ERROR exactly when the bytes do not decode or when they
  are an object whose own \<open>type\<close> member is the string ERROR; no field is checked for
  presence.
\<close>

theorem parse_message_total:
  "parse_message (Undecodable b) = error_envelope \<and>
   message_type_of error_envelope = Inr (JStr ''ERROR'') \<and>
   parse_message (JsonText v) = v \<and>
   (message_type_of (parse_message w) = Inr (JStr ''ERROR'') \<longleftrightarrow>
      (\<exists>b. w = Undecodable b) \<or> (\<exists>kvs. w = JsonText (JObj kvs) \<and> map_of kvs ''type'' = Some (JStr ''ERROR'')))"
proof -
  have a: "parse_message (Undecodable b) = error_envelope"
    by (simp add: parse_message_def json_loads_def)
  have t: "message_type_of error_envelope = Inr (JStr ''ERROR'')"
    by (simp add: message_type_of_def error_envelope_def)
  have c: "parse_message (JsonText v) = v" for v
    by (simp add: parse_message_def json_loads_def)
  have d: "message_type_of (parse_message w) = Inr (JStr ''ERROR'') \<longleftrightarrow>
      (\<exists>b. w = Undecodable b) \<or> (\<exists>kvs. w = JsonText (JObj kvs) \<and> map_of kvs ''type'' = Some (JStr ''ERROR''))"
  proof (cases w)
    case (Undecodable x)
    then show ?thesis using a t by (simp add: parse_message_def json_loads_def)
  next
    case (JsonText x)
    then show ?thesis
      by (cases x) (auto simp: c message_type_of_def split: option.splits)
  qed
  show ?thesis using a t c d by blast
qed

text \<open>
  Claim C6 as the specification states it fails for an absent field: the bytes \<open>{}\<close> decode
  to an empty object, which \<open>parse_message\<close> returns unchanged, with no \<open>type\<close> at all.
\<close>

theorem missing_type_not_error:
  "\<not> (\<forall>w. (\<exists>b. w = Undecodable b) \<or> (\<exists>kvs. w = JsonText (JObj kvs) \<and> map_of kvs ''type'' = None)
          \<longrightarrow> message_type_of (parse_message w) = Inr (JStr ''ERROR''))"
proof
  assume a: "\<forall>w. (\<exists>b. w = Undecodable b) \<or> (\<exists>kvs. w = JsonText (JObj kvs) \<and> map_of kvs ''type'' = None)
          \<longrightarrow> message_type_of (parse_message w) = Inr (JStr ''ERROR'')"
  have "message_type_of (parse_message (JsonText (JObj []))) = Inr (JStr ''ERROR'')"
    using a by fastforce
  then show False
    by (simp add: parse_message_def json_loads_def message_type_of_def)
qed

section \<open>Properties of crypto\_utils.py\<close>

subsection \<open>Encryption\<close>

lemma json_dumps_dict_bytes: "json_dumps_dict ((k, PyBytes b) # rest) = Inl TypeError"
  by (simp add: json_dumps_dict_def)

lemma encrypt_keys_known:
  "map_of (chain_keys dr) other_public_key = Some chain_key \<Longrightarrow>
   encrypt_keys P dr other_public_key rnd_key = (Inr (chain_key, rnd_key), dr)"
  by (simp add: encrypt_keys_def)

lemma encrypt_message_known:
  assumes "map_of (chain_keys dr) other_public_key = Some chain_key"
  shows "encrypt_message P dr message other_public_key rnd_key rnd_nonce =
     (case aesgcm_encrypt P rnd_key rnd_nonce message of
        Inl e \<Rightarrow> (Inl e, dr)
      | Inr ciphertext \<Rightarrow>
          (case map_of (message_numbers dr) other_public_key of
             None \<Rightarrow> (Inl KeyError, dr)
           | Some n \<Rightarrow>
               (Inl TypeError,
                dr\<lparr> message_numbers :=
                      AList.update other_public_key (n + 1) (message_numbers dr) \<rparr>)))"
  using assms
  by (simp add: encrypt_message_def encrypt_keys_known Let_def json_dumps_dict_bytes
      split: sum.splits option.splits)

lemma encrypt_message_chain_keys_known:
  assumes "map_of (chain_keys dr) other_public_key = Some chain_key"
  shows "chain_keys (snd (encrypt_message P dr message other_public_key rnd_key rnd_nonce)) =
         chain_keys dr"
  by (simp add: encrypt_message_known [OF assms] split: sum.splits option.splits)

lemma encrypt_message_counter:
  assumes "map_of (chain_keys dr) pk = Some ck" and "map_of (message_numbers dr) pk = Some n"
    and "aesgcm_encrypt P rnd_key rnd_nonce message = Inr ciphertext"
  shows "map_of (message_numbers (snd (encrypt_message P dr message pk rnd_key rnd_nonce))) pk =
         Some (n + 1)"
  using assms(2,3) by (simp add: encrypt_message_known [OF assms(1)] AList.update_conv')

text \<open>
  Claim C1 asks that, once a chain exists for the peer, the message key be derived from the
  sending chain key and the chain key be advanced. The code does neither: for an engine
  whose chain key for the peer is \<open>chain_key\<close>, the message key of \<open>encrypt_message\<close> is the
  random draw \<open>rnd_key\<close> itself, whatever the chain key is, and the call leaves every
  stored chain key as it was.
\<close>

theorem message_key_is_random_draw:
  "(let dr' = dr\<lparr> chain_keys := AList.update other_public_key chain_key (chain_keys dr) \<rparr>
    in encrypt_keys P dr' other_public_key rnd_key = (Inr (chain_key, rnd_key), dr') \<and>
       chain_keys (snd (encrypt_message P dr' message other_public_key rnd_key rnd_nonce)) =
         chain_keys dr')"
proof -
  let ?dr = "dr\<lparr> chain_keys := AList.update other_public_key chain_key (chain_keys dr) \<rparr>"
  have k: "map_of (chain_keys ?dr) other_public_key = Some chain_key"
    by (simp add: AList.update_conv')
  show ?thesis
    unfolding Let_def
    using encrypt_keys_known [OF k] encrypt_message_chain_keys_known [OF k] by simp
qed

text \<open>
  Claim C2 asks that the peer decrypt what \<open>encrypt_message\<close> returns. The code returns
  nothing to decrypt: on every engine, plaintext, peer key and random draw the call ends in
  an exception, never in a ciphertext. Where the encryption itself succeeds, the exception
  is the \<open>TypeError\<close> of \<open>json.dumps\<close> on the raw \<open>bytes\<close> stored under \<open>public_key\<close>.
\<close>

theorem encrypt_message_raises:
  "fst (encrypt_message P dr message other_public_key rnd_key rnd_nonce) \<noteq> Inr w"
  by (simp add: encrypt_message_def Let_def json_dumps_dict_bytes
      split: prod.splits sum.splits option.splits)

lemma toy_simps:
  "x25519_public toy = toy_public" "x25519_exchange toy = toy_exchange" "hkdf toy = toy_hkdf"
  "aesgcm_encrypt toy = toy_encrypt" "aesgcm_decrypt toy = toy_decrypt"
  "hex toy = toy_hex" "fromhex toy = toy_fromhex"
  by (simp_all add: toy_def)

lemma alice_first_contact:
  "first_contact toy alice [10] = (Inr (replicate 32 167, replicate 32 168), alice_known)"
  by (simp add: first_contact_def perform_dh_def toy_simps toy_exchange_def alice_def
      DoubleRatchet_init_def kdf_root_key_def kdf_chain_key_def toy_hkdf_def
      sum_list_replicate alice_known_def)

lemma bob_first_contact:
  "first_contact toy bob [8] = (Inr (replicate 32 167, replicate 32 168), bob_known)"
  by (simp add: first_contact_def perform_dh_def toy_simps toy_exchange_def bob_def
      DoubleRatchet_init_def kdf_root_key_def kdf_chain_key_def toy_hkdf_def
      sum_list_replicate bob_known_def)

text \<open>
  Claim C8 asks for a returned structure that carries the message number. Two successive
  calls of \<open>encrypt_message\<close> on a fresh engine, for one peer: each raises \<open>TypeError\<close> and
  returns no structure, while the stored message number goes from absent to 1 and from 1
  to 2.
\<close>

theorem encrypt_message_returns_no_structure:
  "encrypt_message toy alice [104, 105] [10] (replicate 32 7) sample_nonce =
     (Inl TypeError, alice_known\<lparr> message_numbers := [([10], 1)] \<rparr>) \<and>
   encrypt_message toy (alice_known\<lparr> message_numbers := [([10], 1)] \<rparr>) [104, 105] [10]
       (replicate 32 7) sample_nonce =
     (Inl TypeError, alice_known\<lparr> message_numbers := [([10], 2)] \<rparr>)"
proof -
  have a: "encrypt_message toy alice [104, 105] [10] (replicate 32 7) sample_nonce =
     (Inl TypeError, alice_known\<lparr> message_numbers := [([10], 1)] \<rparr>)"
  proof -
    have "map_of (chain_keys alice) [10] = None"
      by (simp add: alice_def DoubleRatchet_init_def)
    then have "encrypt_keys toy alice [10] (replicate 32 7) =
               (Inr (replicate 32 167, replicate 32 168), alice_known)"
      by (simp add: encrypt_keys_def alice_first_contact)
    then show ?thesis
      by (simp add: encrypt_message_def Let_def json_dumps_dict_bytes toy_simps
          toy_encrypt_def alice_known_def)
  qed
  have k: "map_of (chain_keys (alice_known\<lparr> message_numbers := [([10], 1)] \<rparr>)) [10] =
           Some (replicate 32 167)"
    by (simp add: alice_known_def)
  have b: "encrypt_message toy (alice_known\<lparr> message_numbers := [([10], 1)] \<rparr>) [104, 105] [10]
       (replicate 32 7) sample_nonce =
     (Inl TypeError, alice_known\<lparr> message_numbers := [([10], 2)] \<rparr>)"
    by (simp add: encrypt_message_known [OF k] toy_simps toy_encrypt_def)
  show ?thesis using a b by simp
qed

subsection \<open>Decryption\<close>

lemma decrypt_message_error: "fst (decrypt_message P dr w rnd_key) = Inl e \<Longrightarrow> e = ValueError"
  by (auto simp: decrypt_message_def split: prod.splits sum.splits)

lemma decrypt_message_of_try:
  "decrypt_try P dr w rnd_key = (Inl e, dr1) \<Longrightarrow>
   decrypt_message P dr w rnd_key = (Inl ValueError, dr1)"
  by (simp add: decrypt_message_def)

lemma decrypt_try_fields:
  assumes "json_loads w = Inr message_data"
    and "py_item message_data ''public_key'' = Inr pk_hex"
    and "bytes_fromhex P pk_hex = Inr other_public_key"
    and "py_item message_data ''message_number'' = Inr message_number"
    and "py_item message_data ''nonce'' = Inr nonce_hex"
    and "bytes_fromhex P nonce_hex = Inr nonce"
    and "py_item message_data ''ciphertext'' = Inr ciphertext_hex"
    and "bytes_fromhex P ciphertext_hex = Inr ciphertext"
  shows "decrypt_try P dr w rnd_key =
     (case decrypt_keys P dr other_public_key rnd_key of
        (Inl e, dr1) \<Rightarrow> (Inl e, dr1)
      | (Inr message_key, dr1) \<Rightarrow> (aesgcm_decrypt P message_key nonce ciphertext, dr1))"
  using assms by (simp add: decrypt_try_def)

lemma first_contact_state:
  "first_contact P dr pk = (r, dr1) \<Longrightarrow> pk' \<noteq> pk \<Longrightarrow>
   map_of (message_numbers dr1) pk' = map_of (message_numbers dr) pk' \<and>
   map_of (chain_keys dr1) pk' = map_of (chain_keys dr) pk'"
  by (auto simp: first_contact_def Let_def AList.update_conv' split: sum.splits prod.splits)

lemma decrypt_keys_state:
  assumes "decrypt_keys P dr pk rnd_key = (r, dr1)" and "map_of (chain_keys dr) pk' = Some ck"
  shows "map_of (message_numbers dr1) pk' = map_of (message_numbers dr) pk' \<and>
         map_of (chain_keys dr1) pk' = Some ck"
proof (cases "map_of (chain_keys dr) pk")
  case None
  then have ne: "pk' \<noteq> pk" using assms(2) by auto
  obtain r0 dr0 where f: "first_contact P dr pk = (r0, dr0)"
    by (cases "first_contact P dr pk")
  then have "dr1 = dr0"
    using assms(1) None by (auto simp: decrypt_keys_def split: sum.splits prod.splits)
  then show ?thesis
    using first_contact_state [OF f ne] assms(2) by simp
next
  case (Some a)
  then show ?thesis using assms by (simp add: decrypt_keys_def)
qed

lemma decrypt_try_state:
  "decrypt_try P dr w rnd_key = (r, dr1) \<Longrightarrow>
   dr1 = dr \<or> (\<exists>pk r'. decrypt_keys P dr pk rnd_key = (r', dr1))"
  by (auto simp: decrypt_try_def split: sum.splits prod.splits)

lemma decrypt_message_keeps_counter:
  assumes "map_of (chain_keys dr) pk' = Some ck"
  shows "map_of (message_numbers (snd (decrypt_message P dr w rnd_key))) pk' =
         map_of (message_numbers dr) pk'"
proof -
  obtain r dr1 where t: "decrypt_try P dr w rnd_key = (r, dr1)"
    by (cases "decrypt_try P dr w rnd_key")
  then have s: "snd (decrypt_message P dr w rnd_key) = dr1"
    by (simp add: decrypt_message_def split: sum.splits)
  from decrypt_try_state [OF t] show ?thesis
  proof
    assume "dr1 = dr"
    then show ?thesis using s by simp
  next
    assume "\<exists>pk r'. decrypt_keys P dr pk rnd_key = (r', dr1)"
    then obtain pk r' where "decrypt_keys P dr pk rnd_key = (r', dr1)" by blast
    then show ?thesis using decrypt_keys_state [OF _ assms] s by simp
  qed
qed

lemma message_number_not_consulted:
  assumes "map_of m ''message_number'' = Some a"
  shows "decrypt_message P dr (JsonText (JObj (AList.update ''message_number'' b m))) rnd_key =
         decrypt_message P dr (JsonText (JObj m)) rnd_key"
proof -
  let ?m' = "AList.update ''message_number'' b m"
  have i: "py_item (JObj ?m') ''public_key'' = py_item (JObj m) ''public_key''"
    "py_item (JObj ?m') ''nonce'' = py_item (JObj m) ''nonce''"
    "py_item (JObj ?m') ''ciphertext'' = py_item (JObj m) ''ciphertext''"
    "py_item (JObj ?m') ''message_number'' = Inr b"
    "py_item (JObj m) ''message_number'' = Inr a"
    using assms by (simp_all add: AList.update_conv')
  have "decrypt_try P dr (JsonText (JObj ?m')) rnd_key =
        decrypt_try P dr (JsonText (JObj m)) rnd_key"
    by (simp add: decrypt_try_def json_loads_def i del: py_item.simps cong: sum.case_cong)
  then show ?thesis by (simp add: decrypt_message_def)
qed

lemma sample_fields:
  "json_loads sample_first_message =
     Inr (JObj [(''public_key'', JStr ''08''), (''message_number'', JInt 1),
                (''nonce'', JStr ''030303030303030303030303''),
                (''ciphertext'', JStr ''8c8dd1'')])"
  "py_item (JObj [(''public_key'', JStr ''08''), (''message_number'', JInt 1),
                (''nonce'', JStr ''030303030303030303030303''),
                (''ciphertext'', JStr ''8c8dd1'')]) ''public_key'' = Inr (JStr ''08'')"
  "bytes_fromhex toy (JStr ''08'') = Inr [8]"
  "py_item (JObj [(''public_key'', JStr ''08''), (''message_number'', JInt 1),
                (''nonce'', JStr ''030303030303030303030303''),
                (''ciphertext'', JStr ''8c8dd1'')]) ''message_number'' = Inr (JInt 1)"
  "py_item (JObj [(''public_key'', JStr ''08''), (''message_number'', JInt 1),
                (''nonce'', JStr ''030303030303030303030303''),
                (''ciphertext'', JStr ''8c8dd1'')]) ''nonce'' =
     Inr (JStr ''030303030303030303030303'')"
  "bytes_fromhex toy (JStr ''030303030303030303030303'') = Inr sample_nonce"
  "py_item (JObj [(''public_key'', JStr ''08''), (''message_number'', JInt 1),
                (''nonce'', JStr ''030303030303030303030303''),
                (''ciphertext'', JStr ''8c8dd1'')]) ''ciphertext'' = Inr (JStr ''8c8dd1'')"
  "bytes_fromhex toy (JStr ''8c8dd1'') = Inr [140, 141, 209]"
  by (simp_all add: sample_first_message_def json_loads_def toy_simps hex_value_def
      sample_nonce_def)

lemma sample_decrypt_try:
  "decrypt_try toy dr sample_first_message rnd_key =
     (case decrypt_keys toy dr [8] rnd_key of
        (Inl e, dr1) \<Rightarrow> (Inl e, dr1)
      | (Inr message_key, dr1) \<Rightarrow>
          (aesgcm_decrypt toy message_key sample_nonce [140, 141, 209], dr1))"
  by (rule decrypt_try_fields [OF sample_fields])

lemma bob_keys:
  "decrypt_keys toy bob [8] rnd_key = (Inr (replicate 32 168), bob_known)"
  "decrypt_keys toy bob_known [8] rnd_key = (Inr rnd_key, bob_known)"
proof -
  have "map_of (chain_keys bob) [8] = None"
    by (simp add: bob_def DoubleRatchet_init_def)
  then show "decrypt_keys toy bob [8] rnd_key = (Inr (replicate 32 168), bob_known)"
    by (simp add: decrypt_keys_def bob_first_contact)
  have "map_of (chain_keys bob_known) [8] = Some (replicate 32 167)"
    by (simp add: bob_known_def)
  then show "decrypt_keys toy bob_known [8] rnd_key = (Inr rnd_key, bob_known)"
    by (simp add: decrypt_keys_def)
qed

lemma sample_open:
  "toy_decrypt (replicate 32 168) sample_nonce [140, 141, 209] = Inr [104, 105]"
  "toy_decrypt (replicate 32 7) sample_nonce [140, 141, 209] = Inl InvalidTag"
  by (simp_all add: toy_decrypt_def toy_tag_def sum_list_replicate sample_nonce_def)

lemma sample_first_decrypt:
  "decrypt_message toy bob sample_first_message rnd_key = (Inr [104, 105], bob_known)"
  by (simp add: decrypt_message_def sample_decrypt_try bob_keys sample_open toy_simps)

text \<open>
  The failures of \<open>decrypt_message\<close>. It fails, and with \<open>ValueError\<close> only: when the bytes
  do not decode; when the envelope carries no \<open>public_key\<close>; when, with all four fields
  read, the key agreement of a first contact raises; and when the authentication of the
  ciphertext fails under the key the call uses. The state it leaves is the one reached when
  the exception was raised.
\<close>

theorem decrypt_failures:
  "(json_loads w = Inl e1 \<longrightarrow> decrypt_message P dr w rnd_key = (Inl ValueError, dr)) \<and>
   (json_loads w = Inr message_data \<and> py_item message_data ''public_key'' = Inl e2 \<longrightarrow>
      decrypt_message P dr w rnd_key = (Inl ValueError, dr)) \<and>
   (json_loads w = Inr message_data \<and>
    py_item message_data ''public_key'' = Inr pk_hex \<and>
    bytes_fromhex P pk_hex = Inr other_public_key \<and>
    py_item message_data ''message_number'' = Inr message_number \<and>
    py_item message_data ''nonce'' = Inr nonce_hex \<and>
    bytes_fromhex P nonce_hex = Inr nonce \<and>
    py_item message_data ''ciphertext'' = Inr ciphertext_hex \<and>
    bytes_fromhex P ciphertext_hex = Inr ciphertext \<longrightarrow>
      (decrypt_keys P dr other_public_key rnd_key = (Inl e3, dr1) \<longrightarrow>
         decrypt_message P dr w rnd_key = (Inl ValueError, dr1)) \<and>
      (decrypt_keys P dr other_public_key rnd_key = (Inr message_key, dr1) \<and>
       aesgcm_decrypt P message_key nonce ciphertext = Inl e4 \<longrightarrow>
         decrypt_message P dr w rnd_key = (Inl ValueError, dr1))) \<and>
   (fst (decrypt_message P dr w rnd_key) = Inl e5 \<longrightarrow> e5 = ValueError)"
proof -
  have a: "json_loads w = Inl e1 \<longrightarrow> decrypt_message P dr w rnd_key = (Inl ValueError, dr)"
    by (simp add: decrypt_message_def decrypt_try_def)
  have b: "json_loads w = Inr message_data \<and> py_item message_data ''public_key'' = Inl e2 \<longrightarrow>
      decrypt_message P dr w rnd_key = (Inl ValueError, dr)"
    by (simp add: decrypt_message_def decrypt_try_def)
  have c: "(decrypt_keys P dr other_public_key rnd_key = (Inl e3, dr1) \<longrightarrow>
         decrypt_message P dr w rnd_key = (Inl ValueError, dr1)) \<and>
      (decrypt_keys P dr other_public_key rnd_key = (Inr message_key, dr1) \<and>
       aesgcm_decrypt P message_key nonce ciphertext = Inl e4 \<longrightarrow>
         decrypt_message P dr w rnd_key = (Inl ValueError, dr1))"
    if "json_loads w = Inr message_data"
      "py_item message_data ''public_key'' = Inr pk_hex"
      "bytes_fromhex P pk_hex = Inr other_public_key"
      "py_item message_data ''message_number'' = Inr message_number"
      "py_item message_data ''nonce'' = Inr nonce_hex"
      "bytes_fromhex P nonce_hex = Inr nonce"
      "py_item message_data ''ciphertext'' = Inr ciphertext_hex"
      "bytes_fromhex P ciphertext_hex = Inr ciphertext"
    by (simp add: decrypt_message_def decrypt_try_fields [OF that])
  have d: "fst (decrypt_message P dr w rnd_key) = Inl e5 \<longrightarrow> e5 = ValueError"
    by (simp add: decrypt_message_error)
  show ?thesis using a b c d by blast
qed

theorem decrypt_failures_witness:
  "json_loads (Undecodable [1, 2]) = Inl JSONDecodeError \<and>
   decrypt_message toy bob (Undecodable [1, 2]) (replicate 32 7) = (Inl ValueError, bob) \<and>
   json_loads (JsonText (JObj [])) = Inr (JObj []) \<and>
   py_item (JObj []) ''public_key'' = Inl KeyError \<and>
   decrypt_message toy bob (JsonText (JObj [])) (replicate 32 7) = (Inl ValueError, bob) \<and>
   decrypt_keys toy bob_known [8] (replicate 32 7) = (Inr (replicate 32 7), bob_known) \<and>
   aesgcm_decrypt toy (replicate 32 7) sample_nonce [140, 141, 209] = Inl InvalidTag \<and>
   decrypt_message toy bob_known sample_first_message (replicate 32 7) =
     (Inl ValueError, bob_known) \<and>
   fst (decrypt_message toy bob_known sample_first_message (replicate 32 7)) = Inl ValueError"
proof -
  have a: "json_loads (Undecodable [1, 2]) = Inl JSONDecodeError"
    by (simp add: json_loads_def)
  have b: "json_loads (JsonText (JObj [])) = Inr (JObj [])"
    "py_item (JObj []) ''public_key'' = Inl KeyError"
    by (simp_all add: json_loads_def)
  have c: "decrypt_keys toy bob_known [8] (replicate 32 7) = (Inr (replicate 32 7), bob_known)"
    "aesgcm_decrypt toy (replicate 32 7) sample_nonce [140, 141, 209] = Inl InvalidTag"
    by (simp_all add: bob_keys sample_open toy_simps)
  show ?thesis
    using a b c sample_fields
      decrypt_failures [of "Undecodable [1, 2]" JSONDecodeError toy bob "replicate 32 7"]
      decrypt_failures [of "JsonText (JObj [])" _ toy bob "replicate 32 7" "JObj []" KeyError]
      decrypt_failures [of sample_first_message _ toy bob_known "replicate 32 7"
        "JObj [(''public_key'', JStr ''08''), (''message_number'', JInt 1),
               (''nonce'', JStr ''030303030303030303030303''),
               (''ciphertext'', JStr ''8c8dd1'')]" _
        "JStr ''08''" "[8]" "JInt 1" "JStr ''030303030303030303030303''" sample_nonce
        "JStr ''8c8dd1''" "[140, 141, 209]" _ bob_known "replicate 32 7" InvalidTag ValueError]
    by simp
qed

lemma decrypt_known_peer:
  assumes "json_loads w = Inr message_data"
    and "py_item message_data ''public_key'' = Inr pk_hex"
    and "bytes_fromhex P pk_hex = Inr other_public_key"
    and "py_item message_data ''message_number'' = Inr message_number"
    and "py_item message_data ''nonce'' = Inr nonce_hex"
    and "bytes_fromhex P nonce_hex = Inr nonce"
    and "py_item message_data ''ciphertext'' = Inr ciphertext_hex"
    and "bytes_fromhex P ciphertext_hex = Inr ciphertext"
    and "map_of (chain_keys dr) other_public_key = Some chain_key"
  shows "decrypt_message P dr w rnd_key =
     (case aesgcm_decrypt P rnd_key nonce ciphertext of
        Inl e \<Rightarrow> (Inl ValueError, dr)
      | Inr plaintext \<Rightarrow> (Inr plaintext, dr))"
  using assms(9)
  by (simp add: decrypt_message_def decrypt_try_fields [OF assms(1-8)] decrypt_keys_def
      split: sum.splits)

lemma list_all_update:
  "list_all Q al \<Longrightarrow> Q (k, v) \<Longrightarrow> list_all Q (AList.update k v al)"
  by (induction al) auto

lemma first_contact_caches_nothing:
  assumes "list_all (\<lambda>kv. snd kv = []) (skip_message_keys dr)"
  shows "list_all (\<lambda>kv. snd kv = []) (skip_message_keys (snd (first_contact P dr pk)))"
proof (cases "perform_dh P dr pk")
  case (Inl e)
  then show ?thesis using assms by (simp add: first_contact_def)
next
  case (Inr shared_secret)
  then have "skip_message_keys (snd (first_contact P dr pk)) =
             AList.update pk [] (skip_message_keys dr)"
    by (simp add: first_contact_def Let_def split: prod.splits)
  then show ?thesis
    using list_all_update [OF assms, of pk "[]"] by simp
qed

lemma decrypt_message_caches_nothing:
  assumes "list_all (\<lambda>kv. snd kv = []) (skip_message_keys dr)"
  shows "list_all (\<lambda>kv. snd kv = [])
           (skip_message_keys (snd (decrypt_message P dr w rnd_key)))"
proof -
  obtain r dr1 where t: "decrypt_try P dr w rnd_key = (r, dr1)"
    by (cases "decrypt_try P dr w rnd_key")
  then have s: "snd (decrypt_message P dr w rnd_key) = dr1"
    by (simp add: decrypt_message_def split: sum.splits)
  from decrypt_try_state [OF t] show ?thesis
  proof
    assume "dr1 = dr"
    then show ?thesis using s assms by simp
  next
    assume "\<exists>pk r'. decrypt_keys P dr pk rnd_key = (r', dr1)"
    then obtain pk r' where k: "decrypt_keys P dr pk rnd_key = (r', dr1)" by blast
    then have "dr1 = dr \<or> dr1 = snd (first_contact P dr pk)"
      by (auto simp: decrypt_keys_def split: option.splits sum.splits prod.splits)
    then show ?thesis
    proof
      assume "dr1 = dr"
      then show ?thesis using s assms by simp
    next
      assume "dr1 = snd (first_contact P dr pk)"
      then show ?thesis using s first_contact_caches_nothing [OF assms, of P pk] by simp
    qed
  qed
qed

lemma encrypt_message_caches_nothing:
  assumes "list_all (\<lambda>kv. snd kv = []) (skip_message_keys dr)"
  shows "list_all (\<lambda>kv. snd kv = [])
           (skip_message_keys (snd (encrypt_message P dr message pk rnd_key rnd_nonce)))"
proof -
  obtain r dr1 where k: "encrypt_keys P dr pk rnd_key = (r, dr1)"
    by (cases "encrypt_keys P dr pk rnd_key")
  then have "dr1 = dr \<or> dr1 = snd (first_contact P dr pk)"
    by (auto simp: encrypt_keys_def split: option.splits)
  then have c: "list_all (\<lambda>kv. snd kv = []) (skip_message_keys dr1)"
  proof
    assume "dr1 = dr"
    then show ?thesis using assms by simp
  next
    assume "dr1 = snd (first_contact P dr pk)"
    then show ?thesis using first_contact_caches_nothing [OF assms, of P pk] by simp
  qed
  have "skip_message_keys (snd (encrypt_message P dr message pk rnd_key rnd_nonce)) =
        skip_message_keys dr1"
    using k by (simp add: encrypt_message_def Let_def split: sum.splits prod.splits option.splits)
  then show ?thesis using c by simp
qed

lemma sample_later_fields:
  "json_loads (sample_later_message n) =
     Inr (JObj [(''public_key'', JStr ''08''), (''message_number'', JInt n),
                (''nonce'', JStr ''030303030303030303030303''),
                (''ciphertext'', JStr ''9293dd'')])"
  "py_item (JObj [(''public_key'', JStr ''08''), (''message_number'', JInt n),
                (''nonce'', JStr ''030303030303030303030303''),
                (''ciphertext'', JStr ''9293dd'')]) ''public_key'' = Inr (JStr ''08'')"
  "bytes_fromhex toy (JStr ''08'') = Inr [8]"
  "py_item (JObj [(''public_key'', JStr ''08''), (''message_number'', JInt n),
                (''nonce'', JStr ''030303030303030303030303''),
                (''ciphertext'', JStr ''9293dd'')]) ''message_number'' = Inr (JInt n)"
  "py_item (JObj [(''public_key'', JStr ''08''), (''message_number'', JInt n),
                (''nonce'', JStr ''030303030303030303030303''),
                (''ciphertext'', JStr ''9293dd'')]) ''nonce'' =
     Inr (JStr ''030303030303030303030303'')"
  "bytes_fromhex toy (JStr ''030303030303030303030303'') = Inr sample_nonce"
  "py_item (JObj [(''public_key'', JStr ''08''), (''message_number'', JInt n),
                (''nonce'', JStr ''030303030303030303030303''),
                (''ciphertext'', JStr ''9293dd'')]) ''ciphertext'' = Inr (JStr ''9293dd'')"
  "bytes_fromhex toy (JStr ''9293dd'') = Inr [146, 147, 221]"
  by (simp_all add: sample_later_message_def json_loads_def toy_simps hex_value_def
      sample_nonce_def)

lemma sample_later_open:
  "kdf_chain_key toy (replicate 32 167) [6] = (replicate 32 247, replicate 32 248)"
  "toy_decrypt (replicate 32 248) sample_nonce [146, 147, 221] = Inr [110, 111]"
  "toy_decrypt (replicate 32 7) sample_nonce [146, 147, 221] = Inl InvalidTag"
  "toy_decrypt (replicate 32 9) sample_nonce [146, 147, 221] = Inl InvalidTag"
  by (simp_all add: kdf_chain_key_def toy_simps toy_hkdf_def toy_decrypt_def toy_tag_def
      sum_list_replicate sample_nonce_def)

lemma sample_later_decrypt:
  "decrypt_message toy bob_known (sample_later_message n) rnd_key =
     (case toy_decrypt rnd_key sample_nonce [146, 147, 221] of
        Inl e \<Rightarrow> (Inl ValueError, bob_known)
      | Inr plaintext \<Rightarrow> (Inr plaintext, bob_known))"
proof -
  have "map_of (chain_keys bob_known) [8] = Some (replicate 32 167)"
    by (simp add: bob_known_def)
  from decrypt_known_peer [OF sample_later_fields this] show ?thesis
    by (simp add: toy_simps)
qed

text \<open>
  Claim C3 asks that a message arriving out of order is tolerated: the key of a skipped
  message is cached and usable exactly once, and \<open>message_number\<close> decides what is a replay.
  The code does not: \<open>bob\<close> decrypts the first message of a sender; the sender's messages 3
  and 2 then arrive in this order, each authentic under the key that \<open>kdf_chain_key\<close>
  derives from the stored chain key. Both are rejected with \<open>ValueError\<close>, because for a
  known peer the key is a fresh random draw, and when message 3 arrives no key is cached
  for message 2: \<open>skip_message_keys\<close> holds the empty dictionary of the first contact, and
  the engine is left as it was.
\<close>

theorem later_messages_rejected_nothing_cached:
  "decrypt_message toy bob sample_first_message (replicate 32 7) = (Inr [104, 105], bob_known) \<and>
   aesgcm_decrypt toy (snd (kdf_chain_key toy (replicate 32 167) [6])) sample_nonce
     [146, 147, 221] = Inr [110, 111] \<and>
   decrypt_message toy bob_known (sample_later_message 3) (replicate 32 7) =
     (Inl ValueError, bob_known) \<and>
   skip_message_keys bob_known = [([8], [])] \<and>
   decrypt_message toy bob_known (sample_later_message 2) (replicate 32 9) =
     (Inl ValueError, bob_known)"
proof -
  have a: "aesgcm_decrypt toy (snd (kdf_chain_key toy (replicate 32 167) [6])) sample_nonce
     [146, 147, 221] = Inr [110, 111]"
    by (simp add: sample_later_open toy_simps)
  have b: "skip_message_keys bob_known = [([8], [])]"
    by (simp add: bob_known_def)
  show ?thesis
    using a b sample_first_decrypt [of "replicate 32 7"]
    by (simp add: sample_later_decrypt sample_later_open)
qed

end
